theory Spec2Isabelle
  imports Complex_Main "HOL-Library.AList"
begin

section \<open>fast-lazyload: the page the script runs in\<close>

text \<open>
  The program is one TypeScript module, \<^verbatim>\<open>src/index.ts\<close>, whose functions read and write
  the browser's document. The document is modelled as an explicit store: nodes are
  addressed by a number, every function of the module takes the page and returns the page
  it leaves behind, and every mutating platform call that returns is appended to \<open>calls\<close>,
  the record of what the script did and in which order (what a test double of the DOM
  would record).

  A platform call that throws is a value: \<open>Inl (e, s)\<close> is the exception \<open>e\<close> raised on
  the page \<open>s\<close> that the calls made so far have left, \<open>Inr x\<close> is the normal return.
  \<^verbatim>\<open>classList.add\<close> and \<^verbatim>\<open>classList.remove\<close> throw on a token that is empty or holds
  white space, \<^verbatim>\<open>querySelectorAll\<close> and \<^verbatim>\<open>matches\<close> on a selector that the platform
  cannot parse, \<^verbatim>\<open>observe\<close> of the mutation observer on a document without body.

  Two parsers of the platform are parameters of the page: what the selector engine makes
  of a selector text, and what the CSS parser makes of a text assigned to
  \<^verbatim>\<open>style.backgroundImage\<close>. Value conversions follow ECMAScript (\<open>undefined\<close> converts
  to the string \<^verbatim>\<open>undefined\<close>, \<^verbatim>\<open>a || b\<close> yields \<open>b\<close> when \<open>a\<close> is \<open>0\<close> or
  \<open>undefined\<close>); \<^verbatim>\<open>dataset\<close> follows the HTML standard's conversion of \<^verbatim>\<open>data-*\<close>
  attribute names; the document is an HTML document, whose elements have their attribute
  names in lower case and whose attribute methods put the name they are given in lower
  case.
\<close>

subsection \<open>Options\<close>

record LazyloadOptions =
  loading :: string
  failed :: string
  on :: string
  loaded :: string
  attribute :: string

definition default_Options :: LazyloadOptions where
  "default_Options =
     \<lparr>loading = ''lazy-loading'', failed = ''lazy-failed'', on = ''lazy'',
      loaded = ''lazy-loaded'', attribute = ''lazy''\<rparr>"

text \<open>\<^verbatim>\<open>const Options = 'lazyloadOptions' in window ? window.lazyloadOptions : {...}\<close>;
  the argument is \<open>None\<close> when the window has no such property.\<close>

definition Options :: "LazyloadOptions option \<Rightarrow> LazyloadOptions" where
  "Options lazyloadOptions =
     (case lazyloadOptions of Some given \<Rightarrow> given | None \<Rightarrow> default_Options)"

subsection \<open>Characters\<close>

definition lower_alphas :: string where
  "lower_alphas = ''abcdefghijklmnopqrstuvwxyz''"

definition upper_alphas :: string where
  "upper_alphas = ''ABCDEFGHIJKLMNOPQRSTUVWXYZ''"

definition ascii_lower_alpha :: "char \<Rightarrow> bool" where
  "ascii_lower_alpha c = (c \<in> set lower_alphas)"

definition ascii_upper_alpha :: "char \<Rightarrow> bool" where
  "ascii_upper_alpha c = (c \<in> set upper_alphas)"

definition ascii_uppercase :: "char \<Rightarrow> char" where
  "ascii_uppercase c =
     (case map_of (zip lower_alphas upper_alphas) c of Some u \<Rightarrow> u | None \<Rightarrow> c)"

definition ascii_lowercase :: "char \<Rightarrow> char" where
  "ascii_lowercase c =
     (case map_of (zip upper_alphas lower_alphas) c of Some l \<Rightarrow> l | None \<Rightarrow> c)"

text \<open>ASCII white space: tab, line feed, form feed, carriage return and space.\<close>

definition ascii_whitespace :: "char \<Rightarrow> bool" where
  "ascii_whitespace c = (c \<in> set [CHR 0x09, CHR 0x0A, CHR 0x0C, CHR 0x0D, CHR 0x20])"

subsection \<open>Nodes\<close>

record DOMRect =
  rect_top :: real
  rect_left :: real
  rect_bottom :: real
  rect_right :: real

text \<open>The two closures the intersection handler registers; each captures
  \<^verbatim>\<open>entry.target\<close>.\<close>

datatype listener = LoadListener nat | ErrorListener nat

text \<open>
  \<open>attributes\<close> are the content attributes in order, their names in lower case (\<^verbatim>\<open>src\<close>,
  \<^verbatim>\<open>srcset\<close>, \<^verbatim>\<open>style\<close> and the \<^verbatim>\<open>data-*\<close> attributes among them); \<open>properties\<close> are the
  JavaScript properties that scripts have added to the element object (\<open>None\<close> is the
  value \<open>undefined\<close>); \<open>backgroundImage\<close> is what \<^verbatim>\<open>el.style.backgroundImage\<close> reads
  (empty when the inline style declares none); \<open>classList\<close> are the class tokens, \<open>rect\<close>
  is what \<^verbatim>\<open>getBoundingClientRect()\<close> returns, and \<open>listeners\<close> are the registered event
  listeners as (event type, callback, once).
\<close>

record element =
  nodeType :: nat
  nodeName :: string
  attributes :: "(string \<times> string) list"
  properties :: "(string \<times> string option) list"
  backgroundImage :: string
  classList :: "string list"
  rect :: DOMRect
  listeners :: "(string \<times> listener \<times> bool) list"

text \<open>\<^verbatim>\<open>hasAttribute\<close> and \<^verbatim>\<open>getAttribute\<close> on an element of an HTML document: the
  name they are given is put in lower case.\<close>

definition attribute_name :: "string \<Rightarrow> string" where
  "attribute_name name = map ascii_lowercase name"

definition hasAttribute :: "element \<Rightarrow> string \<Rightarrow> bool" where
  "hasAttribute el name = (map_of (attributes el) (attribute_name name) \<noteq> None)"

definition getAttribute :: "element \<Rightarrow> string \<Rightarrow> string option" where
  "getAttribute el name = map_of (attributes el) (attribute_name name)"

text \<open>The elements whose interface has a \<^verbatim>\<open>src\<close> attribute that reflects the content
  attribute (\<^verbatim>\<open>img\<close>, \<^verbatim>\<open>video\<close>, \<^verbatim>\<open>audio\<close>, \<^verbatim>\<open>source\<close>, \<^verbatim>\<open>track\<close>, \<^verbatim>\<open>iframe\<close>,
  \<^verbatim>\<open>embed\<close>, \<^verbatim>\<open>input\<close>, \<^verbatim>\<open>script\<close>, \<^verbatim>\<open>frame\<close>), and those with a reflecting
  \<^verbatim>\<open>srcset\<close> (\<^verbatim>\<open>img\<close>, \<^verbatim>\<open>source\<close>). On any other element an assignment to
  \<^verbatim>\<open>el.src\<close> only creates a JavaScript property.\<close>

definition reflects_src :: "string \<Rightarrow> bool" where
  "reflects_src name =
     (name \<in> set [''IMG'', ''VIDEO'', ''AUDIO'', ''SOURCE'', ''TRACK'', ''IFRAME'', ''EMBED'',
                   ''INPUT'', ''SCRIPT'', ''FRAME''])"

definition reflects_srcset :: "string \<Rightarrow> bool" where
  "reflects_srcset name = (name \<in> set [''IMG'', ''SOURCE''])"

subsection \<open>\<^verbatim>\<open>dataset\<close>\<close>

text \<open>
  The HTML standard: the names of a \<^verbatim>\<open>DOMStringMap\<close> come from the attributes whose name
  starts with \<^verbatim>\<open>data-\<close> and has no ASCII upper alpha after it; in the rest of the name
  every \<^verbatim>\<open>-\<close> followed by an ASCII lower alpha is dropped and the letter is put in
  upper case. So \<^verbatim>\<open>data-lazy\<close> is \<^verbatim>\<open>dataset.lazy\<close> and \<^verbatim>\<open>data-lazy-srcset\<close> is
  \<^verbatim>\<open>dataset.lazySrcset\<close>.
\<close>

fun camelCase :: "string \<Rightarrow> string" where
  "camelCase (c1 # c2 # cs) =
     (if c1 = CHR ''-'' \<and> ascii_lower_alpha c2 then ascii_uppercase c2 # camelCase cs
      else c1 # camelCase (c2 # cs))"
| "camelCase cs = cs"

definition dataset_name :: "string \<Rightarrow> string option" where
  "dataset_name name =
     (if take 5 name = ''data-'' \<and> filter ascii_upper_alpha (drop 5 name) = []
      then Some (camelCase (drop 5 name)) else None)"

fun dataset_pairs :: "(string \<times> string) list \<Rightarrow> (string \<times> string) list" where
  "dataset_pairs [] = []"
| "dataset_pairs ((name, v) # as) =
     (case dataset_name name of
        Some key \<Rightarrow> (key, v) # dataset_pairs as
      | None \<Rightarrow> dataset_pairs as)"

text \<open>\<^verbatim>\<open>el.dataset[key]\<close> (\<open>None\<close> is \<open>undefined\<close>) and \<^verbatim>\<open>key in el.dataset\<close>.\<close>

definition dataset :: "element \<Rightarrow> string \<Rightarrow> string option" where
  "dataset el key = map_of (dataset_pairs (attributes el)) key"

definition in_dataset :: "string \<Rightarrow> element \<Rightarrow> bool" where
  "in_dataset key el = (dataset el key \<noteq> None)"

text \<open>ECMAScript's conversion of a value that is a string or \<open>undefined\<close> to a string, as
  a template literal, string concatenation and a string-typed IDL attribute apply it.\<close>

definition js_string :: "string option \<Rightarrow> string" where
  "js_string v = (case v of Some str \<Rightarrow> str | None \<Rightarrow> ''undefined'')"

text \<open>\<^verbatim>\<open>a || b\<close> on a number that may be \<open>undefined\<close>: \<open>0\<close> and \<open>undefined\<close> are falsy.\<close>

definition js_or :: "int option \<Rightarrow> int \<Rightarrow> int" where
  "js_or a b = (case a of None \<Rightarrow> b | Some n \<Rightarrow> if n = 0 then b else n)"

subsection \<open>The page\<close>

text \<open>The closure \<^verbatim>\<open>lazyscript\<close> registers on the window; it captures the script node.\<close>

datatype window_listener = LazyscriptListener nat

datatype call =
    ClassListAdd nat string
  | ClassListRemove nat string
  | AddEventListener nat string listener
  | SetStyleBackgroundImage nat string
  | SetSrc nat "string option"
  | SetSrcset nat "string option"
  | SetAttribute nat string string
  | RemoveAttribute nat string
  | Observe nat
  | Unobserve nat
  | WindowAddEventListener string window_listener
  | CreateElement nat string
  | InsertBefore nat nat
  | Remove nat
  | MutationObserve

text \<open>The exceptions of the platform calls the module makes.\<close>

datatype error = SyntaxError | InvalidCharacterError | TypeError

text \<open>
  \<open>document\<close> lists the elements of the document in tree order; a node that is not listed
  is detached, and its \<^verbatim>\<open>parentElement\<close> is \<^verbatim>\<open>null\<close>. \<open>has_body\<close> says that
  \<^verbatim>\<open>document.body\<close> is not \<^verbatim>\<open>null\<close>. \<open>targets\<close> are the observation targets of the one
  \<^verbatim>\<open>IntersectionObserver\<close> the module creates: the Watch Set. \<open>mutation_observing\<close> says
  that the \<^verbatim>\<open>MutationObserver\<close> has been started.

  \<open>selector\<close> is the platform's selector engine: for a selector text, \<open>None\<close> when the text
  is not a selector (the call throws \<^verbatim>\<open>SyntaxError\<close>), else the test that the selector
  is on an element. \<open>css_background_image\<close> is the platform's CSS parser on a text assigned
  to \<^verbatim>\<open>style.backgroundImage\<close>: \<open>None\<close> when the text is not a value of the property
  (the assignment is ignored), else the text that the property reads afterwards.
\<close>

record page =
  nodes :: "nat \<Rightarrow> element"
  document :: "nat list"
  has_body :: bool
  next_node :: nat
  innerWidth :: "int option"
  innerHeight :: "int option"
  clientWidth :: int
  clientHeight :: int
  has_IntersectionObserver :: bool
  has_MutationObserver :: bool
  selector :: "string \<Rightarrow> (element \<Rightarrow> bool) option"
  css_background_image :: "string \<Rightarrow> string option"
  targets :: "nat list"
  mutation_observing :: bool
  window_listeners :: "(string \<times> window_listener \<times> bool) list"
  calls :: "call list"

type_synonym 'a outcome = "(error \<times> page) + 'a"

text \<open>The next statement runs on what the statement before it returned; an exception
  ends the run.\<close>

definition and_then :: "'a outcome \<Rightarrow> ('a \<Rightarrow> 'b outcome) \<Rightarrow> 'b outcome" where
  "and_then r f = (case r of Inl e \<Rightarrow> Inl e | Inr x \<Rightarrow> f x)"

text \<open>\<^verbatim>\<open>xs.forEach(f)\<close> and \<^verbatim>\<open>for (const x of xs) f(x)\<close>.\<close>

fun forEach :: "('a \<Rightarrow> page \<Rightarrow> page outcome) \<Rightarrow> 'a list \<Rightarrow> page \<Rightarrow> page outcome" where
  "forEach f [] s = Inr s"
| "forEach f (x # xs) s = and_then (f x s) (forEach f xs)"

text \<open>The page that a run leaves, however it ended.\<close>

definition page_after :: "page outcome \<Rightarrow> page" where
  "page_after r = (case r of Inl (e, s) \<Rightarrow> s | Inr s \<Rightarrow> s)"

definition returned :: "'a outcome \<Rightarrow> bool" where
  "returned r = (case r of Inl e \<Rightarrow> False | Inr x \<Rightarrow> True)"

text \<open>One mutating call on a node: the node is replaced and the call recorded.\<close>

definition on_node :: "nat \<Rightarrow> (element \<Rightarrow> element) \<Rightarrow> call \<Rightarrow> page \<Rightarrow> page" where
  "on_node n f c s = s\<lparr>nodes := (nodes s)(n := f (nodes s n)), calls := calls s @ [c]\<rparr>"

text \<open>
  \<^verbatim>\<open>classList.add(token)\<close> and \<^verbatim>\<open>classList.remove(token)\<close>: \<^verbatim>\<open>SyntaxError\<close> on the
  empty token, \<^verbatim>\<open>InvalidCharacterError\<close> on a token with ASCII white space; otherwise
  \<^verbatim>\<open>add\<close> appends the token unless the list has it and \<^verbatim>\<open>remove\<close> takes it out.
\<close>

definition valid_token :: "string \<Rightarrow> bool" where
  "valid_token token = (token \<noteq> [] \<and> filter ascii_whitespace token = [])"

definition add_token :: "string \<Rightarrow> string list \<Rightarrow> string list" where
  "add_token token tokens = (if token \<in> set tokens then tokens else tokens @ [token])"

definition classList_add :: "nat \<Rightarrow> string \<Rightarrow> page \<Rightarrow> page outcome" where
  "classList_add n token s =
     (if token = [] then Inl (SyntaxError, s)
      else if filter ascii_whitespace token \<noteq> [] then Inl (InvalidCharacterError, s)
      else Inr (on_node n (\<lambda>el. el\<lparr>classList := add_token token (classList el)\<rparr>)
                  (ClassListAdd n token) s))"

definition classList_remove :: "nat \<Rightarrow> string \<Rightarrow> page \<Rightarrow> page outcome" where
  "classList_remove n token s =
     (if token = [] then Inl (SyntaxError, s)
      else if filter ascii_whitespace token \<noteq> [] then Inl (InvalidCharacterError, s)
      else Inr (on_node n (\<lambda>el. el\<lparr>classList := removeAll token (classList el)\<rparr>)
                  (ClassListRemove n token) s))"

text \<open>\<^verbatim>\<open>addEventListener(type, callback)\<close> with no options: \<open>once\<close> is false.\<close>

definition addEventListener :: "nat \<Rightarrow> string \<Rightarrow> listener \<Rightarrow> page \<Rightarrow> page" where
  "addEventListener n type cb =
     on_node n (\<lambda>el. el\<lparr>listeners := listeners el @ [(type, cb, False)]\<rparr>)
       (AddEventListener n type cb)"

text \<open>\<^verbatim>\<open>el.style.backgroundImage = text\<close>: the CSS parser decides; a text that is not a
  value of the property leaves the declaration as it is.\<close>

definition set_style_backgroundImage :: "nat \<Rightarrow> string \<Rightarrow> page \<Rightarrow> page" where
  "set_style_backgroundImage n text s =
     (case css_background_image s text of
        None \<Rightarrow> s\<lparr>calls := calls s @ [SetStyleBackgroundImage n text]\<rparr>
      | Some v \<Rightarrow> on_node n (\<lambda>el. el\<lparr>backgroundImage := v\<rparr>) (SetStyleBackgroundImage n text) s)"

text \<open>\<^verbatim>\<open>el.src = v\<close> and \<^verbatim>\<open>el.srcset = v\<close>: on an element with the reflecting attribute
  the value is converted to a string and becomes the content attribute; on any other
  element the value becomes a property of the object.\<close>

definition set_src :: "nat \<Rightarrow> string option \<Rightarrow> page \<Rightarrow> page" where
  "set_src n v =
     on_node n
       (\<lambda>el. if reflects_src (nodeName el)
              then el\<lparr>attributes := AList.update ''src'' (js_string v) (attributes el)\<rparr>
              else el\<lparr>properties := AList.update ''src'' v (properties el)\<rparr>)
       (SetSrc n v)"

definition set_srcset :: "nat \<Rightarrow> string option \<Rightarrow> page \<Rightarrow> page" where
  "set_srcset n v =
     on_node n
       (\<lambda>el. if reflects_srcset (nodeName el)
              then el\<lparr>attributes := AList.update ''srcset'' (js_string v) (attributes el)\<rparr>
              else el\<lparr>properties := AList.update ''srcset'' v (properties el)\<rparr>)
       (SetSrcset n v)"

text \<open>\<^verbatim>\<open>setAttribute\<close> and \<^verbatim>\<open>removeAttribute\<close> on an element of an HTML document; the
  names the module passes to \<^verbatim>\<open>setAttribute\<close> are \<^verbatim>\<open>fetchpriority\<close> and names of
  existing attributes, on which it does not throw.\<close>

definition setAttribute :: "nat \<Rightarrow> string \<Rightarrow> string \<Rightarrow> page \<Rightarrow> page" where
  "setAttribute n name v =
     on_node n (\<lambda>el. el\<lparr>attributes := AList.update (attribute_name name) v (attributes el)\<rparr>)
       (SetAttribute n name v)"

definition removeAttribute :: "nat \<Rightarrow> string \<Rightarrow> page \<Rightarrow> page" where
  "removeAttribute n name =
     on_node n (\<lambda>el. el\<lparr>attributes := AList.delete (attribute_name name) (attributes el)\<rparr>)
       (RemoveAttribute n name)"

text \<open>\<^verbatim>\<open>observer.observe(target)\<close> does nothing for a target already observed;
  \<^verbatim>\<open>observer.unobserve(target)\<close> removes it.\<close>

definition observe :: "nat \<Rightarrow> page \<Rightarrow> page" where
  "observe n s =
     s\<lparr>targets := (if n \<in> set (targets s) then targets s else targets s @ [n]),
       calls := calls s @ [Observe n]\<rparr>"

definition unobserve :: "nat \<Rightarrow> page \<Rightarrow> page" where
  "unobserve n s = s\<lparr>targets := removeAll n (targets s), calls := calls s @ [Unobserve n]\<rparr>"

definition window_addEventListener :: "string \<Rightarrow> window_listener \<Rightarrow> page \<Rightarrow> page" where
  "window_addEventListener type cb s =
     s\<lparr>window_listeners := window_listeners s @ [(type, cb, False)],
       calls := calls s @ [WindowAddEventListener type cb]\<rparr>"

text \<open>\<^verbatim>\<open>document.querySelectorAll(text)\<close> and \<^verbatim>\<open>node.matches(text)\<close>.\<close>

definition querySelectorAll :: "string \<Rightarrow> page \<Rightarrow> nat list outcome" where
  "querySelectorAll text s =
     (case selector s text of
        None \<Rightarrow> Inl (SyntaxError, s)
      | Some p \<Rightarrow> Inr (filter (\<lambda>n. nodeType (nodes s n) = 1 \<and> p (nodes s n)) (document s)))"

definition matches :: "nat \<Rightarrow> string \<Rightarrow> page \<Rightarrow> bool outcome" where
  "matches n text s =
     (case selector s text of
        None \<Rightarrow> Inl (SyntaxError, s)
      | Some p \<Rightarrow> Inr (p (nodes s n)))"

section \<open>The module\<close>

subsection \<open>\<^verbatim>\<open>isElementInViewport\<close>\<close>

definition isElementInViewport :: "page \<Rightarrow> nat \<Rightarrow> bool" where
  "isElementInViewport s el =
     (let rect = rect (nodes s el)
      in rect_bottom rect > 0 \<and>
         rect_right rect > 0 \<and>
         rect_left rect < real_of_int (js_or (innerWidth s) (clientWidth s)) \<and>
         rect_top rect < real_of_int (js_or (innerHeight s) (clientHeight s)))"

text \<open>The viewport size in the words of the specification: the window's inner dimension
  unless it is zero or undefined, then the document root's client dimension.\<close>

definition viewport_width :: "page \<Rightarrow> int" where
  "viewport_width s =
     (if innerWidth s = None \<or> innerWidth s = Some 0 then clientWidth s
      else the (innerWidth s))"

definition viewport_height :: "page \<Rightarrow> int" where
  "viewport_height s =
     (if innerHeight s = None \<or> innerHeight s = Some 0 then clientHeight s
      else the (innerHeight s))"

subsection \<open>\<^verbatim>\<open>unveil\<close>\<close>

text \<open>The name \<^verbatim>\<open>'data-' + Options.attribute\<close> of the marker attribute.\<close>

definition marker :: "LazyloadOptions \<Rightarrow> string" where
  "marker opts = ''data-'' @ attribute opts"

text \<open>\<^verbatim>\<open>src/index.ts\<close>, lines 32 to 41. The pending URL is read from \<^verbatim>\<open>dataset.lazy\<close>.\<close>

definition unveil :: "LazyloadOptions \<Rightarrow> nat \<Rightarrow> page \<Rightarrow> page" where
  "unveil opts lazyBackground s =
     (let el = nodes s lazyBackground;
          s1 = (if hasAttribute el ''style'' \<and> backgroundImage el \<noteq> ''''
                then set_style_backgroundImage lazyBackground
                       (''url('' @ js_string (dataset el ''lazy'') @ '')'') s
                else set_src lazyBackground (dataset el ''lazy'') s)
      in removeAttribute lazyBackground (marker opts) s1)"

text \<open>
  The later revision of the module (its lines 32 to 45) reads the pending URL from
  \<^verbatim>\<open>dataset[Options.attribute]\<close> and adds the source set:
  \<^verbatim>\<open>if ([Options.attribute] + '-srcset' in lazyElement.dataset)
      lazyElement.srcset = lazyElement.dataset[Options.attribute] + '-srcset'\<close>.
  \<^verbatim>\<open>+\<close> binds tighter than \<^verbatim>\<open>in\<close>, so the test is whether the string
  \<^verbatim>\<open>Options.attribute + '-srcset'\<close> is a name of the dataset, and the value assigned is
  the pending URL followed by \<^verbatim>\<open>-srcset\<close>.
\<close>

definition unveil_srcset :: "LazyloadOptions \<Rightarrow> nat \<Rightarrow> page \<Rightarrow> page" where
  "unveil_srcset opts lazyElement s =
     (let el = nodes s lazyElement;
          s1 = (if hasAttribute el ''style'' \<and> backgroundImage el \<noteq> ''''
                then set_style_backgroundImage lazyElement
                       (''url('' @ js_string (dataset el (attribute opts)) @ '')'') s
                else
                  (let s2 = set_src lazyElement (dataset el (attribute opts)) s
                   in if in_dataset (attribute opts @ ''-srcset'') (nodes s2 lazyElement)
                      then set_srcset lazyElement
                             (Some (js_string (dataset (nodes s2 lazyElement) (attribute opts))
                                    @ ''-srcset'')) s2
                      else s2))
      in removeAttribute lazyElement (marker opts) s1)"

subsection \<open>\<^verbatim>\<open>lazyLoadBackgrounds\<close>\<close>

record IntersectionObserverEntry =
  target :: nat
  isIntersecting :: bool

text \<open>The body of \<^verbatim>\<open>entries.forEach\<close>, lines 50 to 69; \<open>s1\<close> to \<open>s5\<close> are the page after
  each statement.\<close>

definition entry_callback ::
    "LazyloadOptions \<Rightarrow> IntersectionObserverEntry \<Rightarrow> page \<Rightarrow> page outcome" where
  "entry_callback opts entry s =
     (if isIntersecting entry then
        (let t = target entry
         in and_then (classList_add t (on opts) s) (\<lambda>s1.
              (let s2 = addEventListener t ''load'' (LoadListener t) s1;
                   s3 = addEventListener t ''error'' (ErrorListener t) s2
               in and_then (classList_add t (loading opts) s3) (\<lambda>s4.
                    (let s5 = unveil opts t s4
                     in Inr (unobserve t s5))))))
      else Inr s)"

definition lazyLoadBackgrounds ::
    "LazyloadOptions \<Rightarrow> IntersectionObserverEntry list \<Rightarrow> page \<Rightarrow> page outcome" where
  "lazyLoadBackgrounds opts entries s = forEach (entry_callback opts) entries s"

text \<open>What the two registered closures do when they run (lines 57 to 58 and line 62).\<close>

fun run_listener :: "LazyloadOptions \<Rightarrow> listener \<Rightarrow> page \<Rightarrow> page outcome" where
  "run_listener opts (LoadListener t) s =
     and_then (classList_add t (loaded opts) s) (classList_remove t (loading opts))"
| "run_listener opts (ErrorListener t) s = classList_add t (failed opts) s"

text \<open>
  The platform firing an event of the given type at a node (\<^verbatim>\<open>load\<close> and \<^verbatim>\<open>error\<close> do not
  bubble): the listeners of that type run in the order of their registration; a listener
  registered with \<open>once\<close> is removed, every other one stays registered; an exception in a
  listener is reported and the next listener runs.
\<close>

definition is_type :: "string \<Rightarrow> string \<times> 'cb \<times> bool \<Rightarrow> bool" where
  "is_type type l = (fst l = type)"

definition stays :: "string \<Rightarrow> string \<times> 'cb \<times> bool \<Rightarrow> bool" where
  "stays type l = (\<not> (fst l = type \<and> snd (snd l)))"

definition fire :: "LazyloadOptions \<Rightarrow> string \<Rightarrow> nat \<Rightarrow> page \<Rightarrow> page" where
  "fire opts type n s =
     (let registered = listeners (nodes s n);
          s1 = s\<lparr>nodes := (nodes s)(n := (nodes s n)\<lparr>listeners := filter (stays type) registered\<rparr>)\<rparr>
      in fold (\<lambda>l p. page_after (run_listener opts (fst (snd l)) p))
           (filter (is_type type) registered) s1)"

subsection \<open>\<^verbatim>\<open>fallbackNode\<close>\<close>

definition fallbackNode :: "LazyloadOptions \<Rightarrow> nat \<Rightarrow> page \<Rightarrow> page outcome" where
  "fallbackNode opts node s = classList_add node (loaded opts) (unveil opts node s)"

subsection \<open>\<^verbatim>\<open>lazyscript\<close>\<close>

definition blank_rect :: DOMRect where
  "blank_rect = \<lparr>rect_top = 0, rect_left = 0, rect_bottom = 0, rect_right = 0\<rparr>"

text \<open>\<^verbatim>\<open>document.createElement(name)\<close>: a new detached element without attributes; in
  an HTML document its \<^verbatim>\<open>nodeName\<close> is the name in upper case.\<close>

definition createElement :: "string \<Rightarrow> page \<Rightarrow> nat \<times> page" where
  "createElement name s =
     (next_node s,
      s\<lparr>nodes := (nodes s)(next_node s :=
           \<lparr>nodeType = 1, nodeName = map ascii_uppercase name, attributes = [], properties = [],
            backgroundImage = [], classList = [], rect = blank_rect, listeners = []\<rparr>),
        next_node := Suc (next_node s),
        calls := calls s @ [CreateElement (next_node s) name]\<rparr>)"

fun insert_before :: "nat \<Rightarrow> nat \<Rightarrow> nat list \<Rightarrow> nat list" where
  "insert_before new ref [] = []"
| "insert_before new ref (x # xs) =
     (if x = ref then new # x # xs else x # insert_before new ref xs)"

text \<open>\<^verbatim>\<open>node.parentElement?.insertBefore(script, node)\<close>: nothing is inserted when the node
  has no parent element.\<close>

definition parent_insertBefore :: "nat \<Rightarrow> nat \<Rightarrow> page \<Rightarrow> page" where
  "parent_insertBefore new ref s =
     (if ref \<in> set (document s)
      then s\<lparr>document := insert_before new ref (document s),
             calls := calls s @ [InsertBefore new ref]\<rparr>
      else s)"

definition remove_node :: "nat \<Rightarrow> page \<Rightarrow> page" where
  "remove_node n s = s\<lparr>document := removeAll n (document s), calls := calls s @ [Remove n]\<rparr>"

text \<open>The loop of lines 90 to 92 over \<^verbatim>\<open>node.attributes\<close>; \<^verbatim>\<open>===\<close> compares the names
  as they are.\<close>

definition copy_attribute ::
    "LazyloadOptions \<Rightarrow> nat \<Rightarrow> string \<times> string \<Rightarrow> page \<Rightarrow> page" where
  "copy_attribute opts script a s =
     (if fst a = marker opts then setAttribute script (fst a) (snd a) s else s)"

text \<open>The closure registered on the window's \<^verbatim>\<open>load\<close> event, lines 88 to 97.\<close>

definition lazyscript_onload :: "LazyloadOptions \<Rightarrow> nat \<Rightarrow> page \<Rightarrow> page" where
  "lazyscript_onload opts node s =
     (let (script, s1) = createElement ''script'' s;
          s2 = fold (copy_attribute opts script) (attributes (nodes s1 node)) s1;
          s3 = set_src script (dataset (nodes s2 node) ''lazy'') s2;
          s4 = parent_insertBefore script node s3
      in remove_node node s4)"

definition lazyscript :: "nat \<Rightarrow> page \<Rightarrow> page" where
  "lazyscript node s = window_addEventListener ''load'' (LazyscriptListener node) s"

fun run_window_listener :: "LazyloadOptions \<Rightarrow> window_listener \<Rightarrow> page \<Rightarrow> page" where
  "run_window_listener opts (LazyscriptListener node) s = lazyscript_onload opts node s"

text \<open>The platform firing an event of the given type at the window.\<close>

definition fire_window :: "LazyloadOptions \<Rightarrow> string \<Rightarrow> page \<Rightarrow> page" where
  "fire_window opts type s =
     (let registered = window_listeners s;
          s1 = s\<lparr>window_listeners := filter (stays type) registered\<rparr>
      in fold (\<lambda>l. run_window_listener opts (fst (snd l))) (filter (is_type type) registered) s1)"

subsection \<open>\<^verbatim>\<open>fastLazyLoad\<close>\<close>

text \<open>The selector text \<^verbatim>\<open>[data-${Options.attribute}]\<close>.\<close>

definition selector_text :: "LazyloadOptions \<Rightarrow> string" where
  "selector_text opts = ''['' @ marker opts @ '']''"

record MutationRecord =
  mutation_type :: string
  addedNodes :: "nat list"

text \<open>The body of \<^verbatim>\<open>mutation.addedNodes.forEach\<close>, lines 124 to 140; \<^verbatim>\<open>&&\<close> calls
  \<^verbatim>\<open>matches\<close> only on a node of type 1.\<close>

definition added_node :: "LazyloadOptions \<Rightarrow> nat \<Rightarrow> page \<Rightarrow> page outcome" where
  "added_node opts node s =
     (if nodeType (nodes s node) = 1 then
        and_then (matches node (selector_text opts) s) (\<lambda>is_lazy.
          if is_lazy then
            (if nodeName (nodes s node) = ''SCRIPT'' then Inr (lazyscript node s)
             else if isElementInViewport s node then
               (let s1 = unveil opts node s
                in if nodeName (nodes s1 node) = ''IMG'' \<or> nodeName (nodes s1 node) = ''VIDEO''
                   then (if hasAttribute (nodes s1 node) ''fetchpriority'' then Inr s1
                         else Inr (setAttribute node ''fetchpriority'' ''high'' s1))
                   else Inr s1)
             else Inr (observe node s))
          else Inr s)
      else Inr s)"

text \<open>The callback of the \<^verbatim>\<open>MutationObserver\<close>, lines 121 to 143.\<close>

definition mutation_step :: "LazyloadOptions \<Rightarrow> MutationRecord \<Rightarrow> page \<Rightarrow> page outcome" where
  "mutation_step opts mutation s =
     (if mutation_type mutation = ''childList''
      then forEach (added_node opts) (addedNodes mutation) s else Inr s)"

definition mutation_callback ::
    "LazyloadOptions \<Rightarrow> MutationRecord list \<Rightarrow> page \<Rightarrow> page outcome" where
  "mutation_callback opts mutationsList s = forEach (mutation_step opts) mutationsList s"

text \<open>The platform delivering mutation records: the callback runs when the observer has
  been started; an exception in it is reported.\<close>

definition deliver_mutations :: "LazyloadOptions \<Rightarrow> MutationRecord list \<Rightarrow> page \<Rightarrow> page" where
  "deliver_mutations opts mutationsList s =
     (if mutation_observing s then page_after (mutation_callback opts mutationsList s) else s)"

text \<open>\<^verbatim>\<open>observer.observe(document.body, {childList: true, subtree: true})\<close> throws a
  \<^verbatim>\<open>TypeError\<close> when \<^verbatim>\<open>document.body\<close> is \<^verbatim>\<open>null\<close>.\<close>

definition mutation_observe :: "page \<Rightarrow> page outcome" where
  "mutation_observe s =
     (if has_body s
      then Inr (s\<lparr>mutation_observing := True, calls := calls s @ [MutationObserve]\<rparr>)
      else Inl (TypeError, s))"

definition fastLazyLoad :: "LazyloadOptions \<Rightarrow> page \<Rightarrow> page outcome" where
  "fastLazyLoad opts s =
     and_then (querySelectorAll (selector_text opts) s) (\<lambda>lazyElements.
       if has_IntersectionObserver s \<and> has_MutationObserver s
       then mutation_observe (fold observe lazyElements s)
       else forEach (fallbackNode opts) lazyElements s)"

subsection \<open>What the script did\<close>

text \<open>The calls made between two pages, and how often a node was revealed (every run of
  \<^verbatim>\<open>unveil\<close> ends in one \<^verbatim>\<open>removeAttribute\<close> of the marker) or unobserved.\<close>

definition calls_since :: "page \<Rightarrow> page \<Rightarrow> call list" where
  "calls_since s s' = drop (length (calls s)) (calls s')"

definition reveals :: "LazyloadOptions \<Rightarrow> nat \<Rightarrow> call list \<Rightarrow> nat" where
  "reveals opts n cs = count_list cs (RemoveAttribute n (marker opts))"

definition unobserves :: "nat \<Rightarrow> call list \<Rightarrow> nat" where
  "unobserves n cs = count_list cs (Unobserve n)"

subsection \<open>Notions the statements use\<close>

text \<open>The four class names are tokens that \<^verbatim>\<open>classList\<close> takes: CSS class names, as the
  data model of the options says.\<close>

definition valid_classes :: "LazyloadOptions \<Rightarrow> bool" where
  "valid_classes opts =
     (valid_token (on opts) \<and> valid_token (loading opts) \<and>
      valid_token (loaded opts) \<and> valid_token (failed opts))"

text \<open>The element carries the marker attribute, and the platform reads the marker selector
  as this test: \<^verbatim>\<open>'data-' + Options.attribute\<close> is the name of an attribute.\<close>

definition has_marker :: "LazyloadOptions \<Rightarrow> element \<Rightarrow> bool" where
  "has_marker opts el = hasAttribute el (marker opts)"

definition reads_marker :: "page \<Rightarrow> LazyloadOptions \<Rightarrow> bool" where
  "reads_marker s opts = (selector s (selector_text opts) = Some (has_marker opts))"

text \<open>The elements of the document that carry the marker attribute.\<close>

definition lazy_elements :: "LazyloadOptions \<Rightarrow> page \<Rightarrow> nat list" where
  "lazy_elements opts s =
     filter (\<lambda>n. nodeType (nodes s n) = 1 \<and> has_marker opts (nodes s n)) (document s)"

text \<open>An entry of a batch that reports the node \<open>n\<close> as intersecting.\<close>

definition entry_for :: "nat \<Rightarrow> IntersectionObserverEntry \<Rightarrow> bool" where
  "entry_for n e = (isIntersecting e \<and> target e = n)"


text \<open>The calls that a registered closure makes when it runs.\<close>

fun listener_calls :: "LazyloadOptions \<Rightarrow> listener \<Rightarrow> call list" where
  "listener_calls opts (LoadListener t) =
     [ClassListAdd t (loaded opts), ClassListRemove t (loading opts)]"
| "listener_calls opts (ErrorListener t) = [ClassListAdd t (failed opts)]"

text \<open>The node is an image or a video and carries no \<^verbatim>\<open>fetchpriority\<close> attribute.\<close>

definition wants_priority :: "page \<Rightarrow> nat \<Rightarrow> bool" where
  "wants_priority s node =
     ((nodeName (nodes s node) = ''IMG'' \<or> nodeName (nodes s node) = ''VIDEO'') \<and>
      \<not> hasAttribute (nodes s node) ''fetchpriority'')"

text \<open>A record of type \<^verbatim>\<open>childList\<close> with these added nodes.\<close>

definition childList :: "nat list \<Rightarrow> MutationRecord" where
  "childList ns = \<lparr>mutation_type = ''childList'', addedNodes = ns\<rparr>"

text \<open>A string in which some \<^verbatim>\<open>-\<close> is followed by an ASCII lower alpha: no name of a
  \<^verbatim>\<open>dataset\<close> is of this kind.\<close>

fun hyphen_lower :: "string \<Rightarrow> bool" where
  "hyphen_lower (c1 # c2 # cs) =
     ((c1 = CHR ''-'' \<and> ascii_lower_alpha c2) \<or> hyphen_lower (c2 # cs))"
| "hyphen_lower cs = False"

subsection \<open>Example pages\<close>

text \<open>
  The selector engine of the examples. It reads \<^verbatim>\<open>[name]\<close>, where the name starts with a
  letter and goes on with letters, digits, \<^verbatim>\<open>-\<close> and \<^verbatim>\<open>_\<close>, as the test for an attribute
  of that name, which is what every engine makes of such a text; it takes no other text.
\<close>

definition name_char :: "char \<Rightarrow> bool" where
  "name_char c = (ascii_lower_alpha c \<or> ascii_upper_alpha c \<or> c \<in> set ''0123456789-_'')"

definition attribute_selector :: "string \<Rightarrow> (element \<Rightarrow> bool) option" where
  "attribute_selector text =
     (if 3 \<le> length text \<and> hd text = CHR ''['' \<and> last text = CHR '']'' \<and>
         (ascii_lower_alpha (hd (tl text)) \<or> ascii_upper_alpha (hd (tl text))) \<and>
         filter name_char (butlast (tl text)) = butlast (tl text)
      then Some (\<lambda>el. hasAttribute el (butlast (tl text)))
      else None)"

text \<open>
  The CSS parser of the examples. It takes \<^verbatim>\<open>url(X)\<close> where \<open>X\<close> holds no white space,
  control character, quote, parenthesis or backslash: such a text is one URL token of
  CSS, and the property then reads \<^verbatim>\<open>url("X")\<close>. It takes no other text. For every CSS
  parser a text \<^verbatim>\<open>url(X)\<close> in which a space of \<open>X\<close> is followed by something else than
  the end, or in which \<open>X\<close> holds an opening parenthesis or a quote after its first
  character, is a bad URL token and no value of the property.
\<close>

definition url_char :: "char \<Rightarrow> bool" where
  "url_char c =
     (32 < (of_char c :: nat) \<and> (of_char c :: nat) \<noteq> 127 \<and>
      c \<notin> set [CHR 0x22, CHR 0x27, CHR 0x28, CHR 0x29, CHR 0x5C])"

definition url_value :: "string \<Rightarrow> string option" where
  "url_value text =
     (if 5 \<le> length text \<and> take 4 text = ''url('' \<and> last text = CHR 0x29 \<and>
         filter url_char (butlast (drop 4 text)) = butlast (drop 4 text)
      then Some (''url('' @ [CHR 0x22] @ butlast (drop 4 text) @ [CHR 0x22] @ '')'')
      else None)"

text \<open>A text node, and the elements of the examples.\<close>

definition text_node :: element where
  "text_node =
     \<lparr>nodeType = 3, nodeName = ''#text'', attributes = [], properties = [], backgroundImage = [],
      classList = [], rect = blank_rect, listeners = []\<rparr>"

definition offscreen :: DOMRect where
  "offscreen = \<lparr>rect_top = 5000, rect_left = 0, rect_bottom = 5540, rect_right = 960\<rparr>"

definition onscreen :: DOMRect where
  "onscreen = \<lparr>rect_top = 100, rect_left = 0, rect_bottom = 640, rect_right = 960\<rparr>"

text \<open>\<^verbatim>\<open><img data-lazy="a.png">\<close>, below the fold.\<close>

definition lazy_img :: element where
  "lazy_img =
     \<lparr>nodeType = 1, nodeName = ''IMG'', attributes = [(''data-lazy'', ''a.png'')],
      properties = [], backgroundImage = [], classList = [], rect = offscreen, listeners = []\<rparr>"




definition plain_div :: element where
  "plain_div =
     \<lparr>nodeType = 1, nodeName = ''DIV'', attributes = [],
      properties = [], backgroundImage = [], classList = [], rect = onscreen, listeners = []\<rparr>"

text \<open>\<^verbatim>\<open><script data-lazy="c.js">\<close>.\<close>

definition lazy_script :: element where
  "lazy_script =
     \<lparr>nodeType = 1, nodeName = ''SCRIPT'', attributes = [(''data-lazy'', ''c.js'')],
      properties = [], backgroundImage = [], classList = [], rect = blank_rect, listeners = []\<rparr>"

text \<open>\<^verbatim>\<open><img data-lazy="a.png" data-lazy-srcset="a.png 1x, b.png 2x">\<close>.\<close>

definition srcset_img :: element where
  "srcset_img =
     \<lparr>nodeType = 1, nodeName = ''IMG'',
      attributes = [(''data-lazy'', ''a.png''), (''data-lazy-srcset'', ''a.png 1x, b.png 2x'')],
      properties = [], backgroundImage = [], classList = [], rect = offscreen, listeners = []\<rparr>"

text \<open>\<^verbatim>\<open><img data-img="a.png">\<close>, for the options whose \<^verbatim>\<open>attribute\<close> is \<^verbatim>\<open>img\<close>.\<close>

definition custom_img :: element where
  "custom_img =
     \<lparr>nodeType = 1, nodeName = ''IMG'', attributes = [(''data-img'', ''a.png'')],
      properties = [], backgroundImage = [], classList = [], rect = offscreen, listeners = []\<rparr>"

definition custom_Options :: LazyloadOptions where
  "custom_Options = default_Options\<lparr>attribute := ''img''\<rparr>"

text \<open>
  A page whose document holds the given elements, numbered from \<open>0\<close> in tree order, in a
  window of 1280 by 720 with both observers; every other node number is a text node
  outside the document.
\<close>

definition node_of :: "element list \<Rightarrow> nat \<Rightarrow> element" where
  "node_of els n = (if n < length els then els ! n else text_node)"

definition page_with :: "element list \<Rightarrow> page" where
  "page_with els =
     \<lparr>nodes = node_of els, document = [0 ..< length els], has_body = True,
      next_node = length els,
      innerWidth = Some 1280, innerHeight = Some 720, clientWidth = 1265, clientHeight = 720,
      has_IntersectionObserver = True, has_MutationObserver = True,
      selector = attribute_selector, css_background_image = url_value,
      targets = [], mutation_observing = False, window_listeners = [], calls = []\<rparr>"

definition page_of :: "element \<Rightarrow> page" where
  "page_of el = page_with [el]"


text \<open>What the page's own scripts and the layout do: the node gets another place.\<close>

definition place :: "nat \<Rightarrow> DOMRect \<Rightarrow> page \<Rightarrow> page" where
  "place n r s = s\<lparr>nodes := (nodes s)(n := (nodes s n)\<lparr>rect := r\<rparr>)\<rparr>"

definition entering :: "nat \<Rightarrow> IntersectionObserverEntry" where
  "entering n = \<lparr>target = n, isIntersecting = True\<rparr>"

text \<open>
  The image is in the document at startup, below the fold, so \<^verbatim>\<open>fastLazyLoad\<close> watches
  it (\<open>watched_page\<close>). A script of the page then moves it to the top of the body: the
  mutation observer reports it as an added node, now in the viewport (\<open>moved_page\<close>).
  At the next frame the intersection observer, which still watches it, reports it as
  intersecting (\<open>entered_page\<close>). In \<open>revealed_page\<close> the image was not moved and
  scrolls into view; in \<open>failed_page\<close> it then fails to load.
\<close>

definition watched_page :: page where
  "watched_page = page_after (fastLazyLoad default_Options (page_of lazy_img))"

definition moved_page :: page where
  "moved_page = deliver_mutations default_Options [childList [0]] (place 0 onscreen watched_page)"

definition entered_page :: page where
  "entered_page = page_after (lazyLoadBackgrounds default_Options [entering 0] moved_page)"

definition revealed_page :: page where
  "revealed_page = page_after (lazyLoadBackgrounds default_Options [entering 0] watched_page)"


definition onscreen_page :: page where
  "onscreen_page = place 0 onscreen (page_of lazy_img)"

text \<open>
  A page script inserts \<^verbatim>\<open><div><img data-lazy="a.png"></div>\<close> at the top of the body:
  node \<open>0\<close> is the division, node \<open>1\<close> the image in it, and the mutation record lists the
  division, the root of what was inserted.
\<close>

definition wrapper_page :: page where
  "wrapper_page =
     page_after (fastLazyLoad default_Options (page_with []))
       \<lparr>nodes := node_of [plain_div, lazy_img\<lparr>rect := onscreen\<rparr>], document := [0, 1],
        next_node := 2\<rparr>"


section \<open>Lemmas\<close>

subsection \<open>The platform calls\<close>

lemmas platform_defs =
  on_node_def addEventListener_def set_style_backgroundImage_def set_src_def set_srcset_def
  setAttribute_def removeAttribute_def observe_def unobserve_def window_addEventListener_def

lemma calls_since_append: "calls s' = calls s @ cs \<Longrightarrow> calls_since s s' = cs"
  by (simp add: calls_since_def)

lemma calls_since_self: "calls_since s s = []"
  by (simp add: calls_since_def)

lemma hasAttribute_get: "hasAttribute el k \<longleftrightarrow> getAttribute el k \<noteq> None"
  by (simp add: hasAttribute_def getAttribute_def)

lemma and_then_Inr: "and_then (Inr x) f = f x"
  by (simp add: and_then_def)

lemma and_then_Inl: "and_then (Inl e) f = Inl e"
  by (simp add: and_then_def)

lemma page_after_Inr: "page_after (Inr s) = s"
  by (simp add: page_after_def)

lemma classList_add_valid:
  "valid_token token \<Longrightarrow>
   classList_add n token s =
     Inr (on_node n (\<lambda>el. el\<lparr>classList := add_token token (classList el)\<rparr>)
            (ClassListAdd n token) s)"
  by (simp add: classList_add_def valid_token_def)

lemma classList_remove_valid:
  "valid_token token \<Longrightarrow>
   classList_remove n token s =
     Inr (on_node n (\<lambda>el. el\<lparr>classList := removeAll token (classList el)\<rparr>)
            (ClassListRemove n token) s)"
  by (simp add: classList_remove_def valid_token_def)

lemma forEach_append:
  "forEach f (xs @ ys) s = and_then (forEach f xs s) (forEach f ys)"
proof (induction xs arbitrary: s)
  case Nil
  show ?case by (simp add: and_then_def)
next
  case (Cons x xs)
  show ?case
    by (cases "f x s") (simp_all add: and_then_def Cons.IH)
qed

lemma forEach_snoc:
  "forEach f xs s = Inr s0 \<Longrightarrow> forEach f (xs @ [x]) s = f x s0"
  by (cases "f x s0") (simp_all add: forEach_append and_then_def)

subsection \<open>Names\<close>

lemma uppercase_of_lower: "ascii_lower_alpha c \<Longrightarrow> ascii_upper_alpha (ascii_uppercase c)"
  unfolding ascii_lower_alpha_def ascii_upper_alpha_def ascii_uppercase_def
    lower_alphas_def upper_alphas_def
  by auto

lemma upper_not_lower: "ascii_upper_alpha c \<Longrightarrow> \<not> ascii_lower_alpha c"
  unfolding ascii_lower_alpha_def ascii_upper_alpha_def lower_alphas_def upper_alphas_def
  by auto

lemma upper_not_hyphen: "ascii_upper_alpha c \<Longrightarrow> c \<noteq> CHR ''-''"
  unfolding ascii_upper_alpha_def upper_alphas_def by auto

lemma attribute_name_data: "attribute_name (''data-'' @ a) = ''data-'' @ attribute_name a"
  by (simp add: attribute_name_def ascii_lowercase_def upper_alphas_def lower_alphas_def)

lemma attribute_names:
  "attribute_name ''data-lazy'' = ''data-lazy''"
  "attribute_name ''src'' = ''src''"
  "attribute_name ''srcset'' = ''srcset''"
  "attribute_name ''style'' = ''style''"
  "attribute_name ''fetchpriority'' = ''fetchpriority''"
  by code_simp+

lemma marker_name: "attribute_name (marker opts) = ''data-'' @ attribute_name (attribute opts)"
  by (simp only: marker_def attribute_name_data)

lemma marker_lower_distinct:
  "attribute_name (marker opts) \<noteq> ''src''"
  "attribute_name (marker opts) \<noteq> ''srcset''"
  "attribute_name (marker opts) \<noteq> ''fetchpriority''"
  "''fetchpriority'' \<noteq> attribute_name (marker opts)"
  "''src'' \<noteq> attribute_name (marker opts)"
  "''srcset'' \<noteq> attribute_name (marker opts)"
  by (simp_all add: marker_name)

lemma camelCase_without_upper:
  "filter ascii_upper_alpha (camelCase x) = [] \<Longrightarrow> camelCase x = x"
proof (induction x rule: camelCase.induct)
  case (1 c1 c2 cs)
  show ?case
  proof (cases "c1 = CHR ''-'' \<and> ascii_lower_alpha c2")
    case True
    with "1.prems" uppercase_of_lower [of c2] show ?thesis by simp
  next
    case False
    with 1 show ?thesis by (auto split: if_splits)
  qed
qed simp_all

lemma dataset_name_lazy: "dataset_name name = Some ''lazy'' \<longleftrightarrow> name = ''data-lazy''"
proof
  assume a: "dataset_name name = Some ''lazy''"
  then have t: "take 5 name = ''data-''" and c: "camelCase (drop 5 name) = ''lazy''"
    by (auto simp: dataset_name_def split: if_splits)
  have "filter ascii_upper_alpha (camelCase (drop 5 name)) = []"
    unfolding c by (simp add: ascii_upper_alpha_def upper_alphas_def)
  then have "drop 5 name = ''lazy''" using camelCase_without_upper c by metis
  with t have "take 5 name @ drop 5 name = ''data-lazy''" by simp
  then show "name = ''data-lazy''" by simp
next
  assume "name = ''data-lazy''"
  then show "dataset_name name = Some ''lazy''"
    by (simp add: dataset_name_def ascii_upper_alpha_def upper_alphas_def
        ascii_lower_alpha_def lower_alphas_def)
qed

lemma dataset_pairs_lazy: "map_of (dataset_pairs as) ''lazy'' = map_of as ''data-lazy''"
proof (induction as)
  case Nil
  show ?case by simp
next
  case (Cons a as)
  obtain name v where a: "a = (name, v)" by (cases a)
  show ?case
  proof (cases "dataset_name name")
    case None
    then have "name \<noteq> ''data-lazy''" using dataset_name_lazy [of name] by auto
    with None Cons a show ?thesis by simp
  next
    case (Some key)
    then have "key = ''lazy'' \<longleftrightarrow> name = ''data-lazy''"
      using dataset_name_lazy [of name] by auto
    with Some Cons a show ?thesis by auto
  qed
qed

lemma dataset_lazy: "dataset el ''lazy'' = getAttribute el ''data-lazy''"
  by (simp add: dataset_def getAttribute_def dataset_pairs_lazy attribute_names)

lemma hyphen_lower_Cons:
  "hyphen_lower (c # xs) \<longleftrightarrow>
     (c = CHR ''-'' \<and> xs \<noteq> [] \<and> ascii_lower_alpha (hd xs)) \<or> hyphen_lower xs"
  by (cases xs) auto

lemma hd_camelCase:
  "hd (camelCase (c # cs)) = c \<or> ascii_upper_alpha (hd (camelCase (c # cs)))"
  by (cases cs) (auto simp: uppercase_of_lower)

lemma camelCase_no_hyphen_lower: "\<not> hyphen_lower (camelCase x)"
proof (induction x rule: camelCase.induct)
  case (1 c1 c2 cs)
  show ?case
  proof (cases "c1 = CHR ''-'' \<and> ascii_lower_alpha c2")
    case True
    then have "ascii_uppercase c2 \<noteq> CHR ''-''"
      using uppercase_of_lower upper_not_hyphen by blast
    with True 1 show ?thesis by (simp add: hyphen_lower_Cons)
  next
    case False
    have "\<not> (c1 = CHR ''-'' \<and> ascii_lower_alpha (hd (camelCase (c2 # cs))))"
      using False hd_camelCase [of c2 cs] upper_not_lower by auto
    with False 1 show ?thesis by (auto simp: hyphen_lower_Cons)
  qed
qed simp_all

lemma hyphen_lower_srcset: "hyphen_lower (a @ ''-srcset'')"
proof (induction a)
  case Nil
  show ?case by (simp add: ascii_lower_alpha_def lower_alphas_def)
next
  case (Cons c a)
  then show ?case by (simp add: hyphen_lower_Cons)
qed

lemma dataset_pairs_srcset: "map_of (dataset_pairs as) (a @ ''-srcset'') = None"
proof (induction as)
  case Nil
  show ?case by simp
next
  case (Cons p as)
  obtain name v where p: "p = (name, v)" by (cases p)
  have "dataset_name name \<noteq> Some (a @ ''-srcset'')"
    using camelCase_no_hyphen_lower [of "drop 5 name"] hyphen_lower_srcset [of a]
    by (auto simp: dataset_name_def)
  with Cons p show ?case by (cases "dataset_name name") auto
qed

lemma srcset_name_never_in_dataset: "\<not> in_dataset (attribute opts @ ''-srcset'') el"
  by (simp add: in_dataset_def dataset_def dataset_pairs_srcset)

subsection \<open>unveil\<close>

lemma unveil_calls:
  "calls (unveil opts n s) =
     calls s @
     [if hasAttribute (nodes s n) ''style'' \<and> backgroundImage (nodes s n) \<noteq> ''''
      then SetStyleBackgroundImage n (''url('' @ js_string (dataset (nodes s n) ''lazy'') @ '')'')
      else SetSrc n (dataset (nodes s n) ''lazy''),
      RemoveAttribute n (marker opts)]"
  by (simp add: unveil_def Let_def platform_defs split: option.splits)

lemma unveil_frame:
  "targets (unveil opts n s) = targets s"
  "document (unveil opts n s) = document s"
  "window_listeners (unveil opts n s) = window_listeners s"
  "next_node (unveil opts n s) = next_node s"
  "has_IntersectionObserver (unveil opts n s) = has_IntersectionObserver s"
  "has_MutationObserver (unveil opts n s) = has_MutationObserver s"
  "selector (unveil opts n s) = selector s"
  "css_background_image (unveil opts n s) = css_background_image s"
  "has_body (unveil opts n s) = has_body s"
  by (simp_all add: unveil_def Let_def platform_defs split: option.splits)

lemma unveil_other: "m \<noteq> n \<Longrightarrow> nodes (unveil opts n s) m = nodes s m"
  by (simp add: unveil_def Let_def platform_defs split: option.splits)



lemma unveil_keeps:
  "classList (nodes (unveil opts n s) m) = classList (nodes s m)"
  "listeners (nodes (unveil opts n s) m) = listeners (nodes s m)"
  "nodeName (nodes (unveil opts n s) m) = nodeName (nodes s m)"
  "nodeType (nodes (unveil opts n s) m) = nodeType (nodes s m)"
  "rect (nodes (unveil opts n s) m) = rect (nodes s m)"
  by (simp_all add: unveil_def Let_def platform_defs split: option.splits)

lemma unveil_removes_marker: "\<not> hasAttribute (nodes (unveil opts n s) n) (marker opts)"
  by (simp add: unveil_def Let_def platform_defs hasAttribute_def delete_conv'
      split: option.splits)

lemma unveil_marker_mono:
  "hasAttribute (nodes (unveil opts n s) m) (marker opts) \<Longrightarrow>
     hasAttribute (nodes s m) (marker opts)"
  by (cases "m = n") (simp_all add: unveil_removes_marker unveil_other)

lemma unveil_fetchpriority:
  "getAttribute (nodes (unveil opts n s) m) ''fetchpriority'' =
     getAttribute (nodes s m) ''fetchpriority''"
  using marker_lower_distinct [of opts]
  by (simp add: unveil_def Let_def platform_defs getAttribute_def attribute_names
      delete_conv' update_conv' split: option.splits)

lemma unveil_never_sets_srcset:
  "getAttribute (nodes (unveil opts n s) m) ''srcset'' = getAttribute (nodes s m) ''srcset''"
  using marker_lower_distinct [of opts]
  by (simp add: unveil_def Let_def platform_defs getAttribute_def attribute_names
      delete_conv' update_conv' split: option.splits)

lemma unveil_srcset_never_sets_srcset:
  "getAttribute (nodes (unveil_srcset opts n s) m) ''srcset'' =
     getAttribute (nodes s m) ''srcset''"
  using marker_lower_distinct [of opts]
  by (simp add: unveil_srcset_def Let_def srcset_name_never_in_dataset platform_defs
      getAttribute_def attribute_names delete_conv' update_conv' split: option.splits)

subsection \<open>The intersection handler\<close>

lemma entry_callback_skip: "\<not> isIntersecting e \<Longrightarrow> entry_callback opts e s = Inr s"
  by (simp add: entry_callback_def)

lemma entry_callback_effect:
  assumes "isIntersecting e" and "valid_token (on opts)" and "valid_token (loading opts)"
  shows "\<exists>s'. entry_callback opts e s = Inr s' \<and>
      calls s' = calls s @
        [ClassListAdd (target e) (on opts),
         AddEventListener (target e) ''load'' (LoadListener (target e)),
         AddEventListener (target e) ''error'' (ErrorListener (target e)),
         ClassListAdd (target e) (loading opts)] @
        calls_since s (unveil opts (target e) s) @ [Unobserve (target e)] \<and>
      targets s' = removeAll (target e) (targets s) \<and>
      listeners (nodes s' (target e)) =
        listeners (nodes s (target e)) @
        [(''load'', LoadListener (target e), False), (''error'', ErrorListener (target e), False)] \<and>
      classList (nodes s' (target e)) =
        add_token (loading opts) (add_token (on opts) (classList (nodes s (target e)))) \<and>
      (\<forall>m. m \<noteq> target e \<longrightarrow> nodes s' m = nodes s m) \<and>
      \<not> hasAttribute (nodes s' (target e)) (marker opts)"
proof -
  let ?t = "target e"
  let ?s3 = "addEventListener ?t ''error'' (ErrorListener ?t)
      (addEventListener ?t ''load'' (LoadListener ?t)
        (on_node ?t (\<lambda>el. el\<lparr>classList := add_token (on opts) (classList el)\<rparr>)
          (ClassListAdd ?t (on opts)) s))"
  let ?s4 = "on_node ?t (\<lambda>el. el\<lparr>classList := add_token (loading opts) (classList el)\<rparr>)
      (ClassListAdd ?t (loading opts)) ?s3"
  let ?s' = "unobserve ?t (unveil opts ?t ?s4)"
  have r: "entry_callback opts e s = Inr ?s'"
    using assms
    by (simp add: entry_callback_def Let_def classList_add_valid and_then_Inr)
  have c: "calls ?s' = calls s @
        [ClassListAdd ?t (on opts),
         AddEventListener ?t ''load'' (LoadListener ?t),
         AddEventListener ?t ''error'' (ErrorListener ?t),
         ClassListAdd ?t (loading opts)] @
        calls_since s (unveil opts ?t s) @ [Unobserve ?t]"
    by (simp add: unveil_calls calls_since_def platform_defs hasAttribute_def dataset_def)
  have t: "targets ?s' = removeAll ?t (targets s)"
    by (simp add: unobserve_def unveil_frame) (simp add: platform_defs)
  have l: "listeners (nodes ?s' ?t) = listeners (nodes s ?t) @
        [(''load'', LoadListener ?t, False), (''error'', ErrorListener ?t, False)]"
    by (simp add: unobserve_def unveil_keeps) (simp add: platform_defs)
  have k: "classList (nodes ?s' ?t) =
        add_token (loading opts) (add_token (on opts) (classList (nodes s ?t)))"
    by (simp add: unobserve_def unveil_keeps) (simp add: platform_defs)
  have o: "\<forall>m. m \<noteq> ?t \<longrightarrow> nodes ?s' m = nodes s m"
    by (simp add: unobserve_def unveil_other) (simp add: platform_defs)
  have m: "\<not> hasAttribute (nodes ?s' ?t) (marker opts)"
    by (simp add: unobserve_def unveil_removes_marker)
  show ?thesis using r c t l k o m by blast
qed

lemma unveil_reveal_count:
  "reveals opts n (calls_since s (unveil opts t s)) = (if t = n then 1 else 0)"
  "unobserves n (calls_since s (unveil opts t s)) = 0"
  by (simp_all add: unveil_calls calls_since_def reveals_def unobserves_def)

lemma reveals_append: "reveals opts n (a @ b) = reveals opts n a + reveals opts n b"
  by (simp add: reveals_def)

lemma unobserves_append: "unobserves n (a @ b) = unobserves n a + unobserves n b"
  by (simp add: unobserves_def)

lemma handler_batch:
  assumes "valid_token (on opts)" and "valid_token (loading opts)"
  shows "\<exists>s' cs. forEach (entry_callback opts) es s = Inr s' \<and>
      calls s' = calls s @ cs \<and>
      reveals opts n cs = length (filter (entry_for n) es) \<and>
      unobserves n cs = length (filter (entry_for n) es) \<and>
      set (targets s') \<subseteq> set (targets s) \<and>
      (hasAttribute (nodes s' n) (marker opts) \<longrightarrow> hasAttribute (nodes s n) (marker opts)) \<and>
      (filter (entry_for n) es \<noteq> [] \<longrightarrow>
         n \<notin> set (targets s') \<and> \<not> hasAttribute (nodes s' n) (marker opts))"
proof (induction es arbitrary: s)
  case Nil
  show ?case by (simp add: reveals_def unobserves_def)
next
  case (Cons e es)
  show ?case
  proof (cases "isIntersecting e")
    case False
    then have f: "forEach (entry_callback opts) (e # es) s = forEach (entry_callback opts) es s"
      by (simp add: entry_callback_skip and_then_Inr)
    from False have "\<not> entry_for n e" by (simp add: entry_for_def)
    then show ?thesis using Cons.IH [of s] unfolding f by simp
  next
    case True
    from entry_callback_effect [OF True assms, of s]
    obtain s1 where s1: "entry_callback opts e s = Inr s1"
      and c1: "calls s1 = calls s @
        [ClassListAdd (target e) (on opts),
         AddEventListener (target e) ''load'' (LoadListener (target e)),
         AddEventListener (target e) ''error'' (ErrorListener (target e)),
         ClassListAdd (target e) (loading opts)] @
        calls_since s (unveil opts (target e) s) @ [Unobserve (target e)]"
      and t1: "targets s1 = removeAll (target e) (targets s)"
      and o1: "\<forall>m. m \<noteq> target e \<longrightarrow> nodes s1 m = nodes s m"
      and m1: "\<not> hasAttribute (nodes s1 (target e)) (marker opts)"
      by blast
    let ?c1 = "[ClassListAdd (target e) (on opts),
         AddEventListener (target e) ''load'' (LoadListener (target e)),
         AddEventListener (target e) ''error'' (ErrorListener (target e)),
         ClassListAdd (target e) (loading opts)] @
        calls_since s (unveil opts (target e) s) @ [Unobserve (target e)]"
    have r1: "reveals opts n ?c1 = (if entry_for n e then 1 else 0)"
      using True unveil_reveal_count(1) [of opts n s "target e"]
      by (simp add: reveals_def entry_for_def)
    have u1: "unobserves n ?c1 = (if entry_for n e then 1 else 0)"
      using True unveil_reveal_count(2) [of n s opts "target e"]
      by (simp add: unobserves_def entry_for_def)
    from Cons.IH [of s1] obtain s' cs where
      f: "forEach (entry_callback opts) es s1 = Inr s'"
      and c: "calls s' = calls s1 @ cs"
      and r: "reveals opts n cs = length (filter (entry_for n) es)"
      and u: "unobserves n cs = length (filter (entry_for n) es)"
      and t: "set (targets s') \<subseteq> set (targets s1)"
      and m: "hasAttribute (nodes s' n) (marker opts) \<longrightarrow> hasAttribute (nodes s1 n) (marker opts)"
      and d: "filter (entry_for n) es \<noteq> [] \<longrightarrow>
         n \<notin> set (targets s') \<and> \<not> hasAttribute (nodes s' n) (marker opts)"
      by blast
    have 1: "forEach (entry_callback opts) (e # es) s = Inr s'"
      by (simp add: s1 and_then_Inr f)
    have 2: "calls s' = calls s @ (?c1 @ cs)" using c c1 by simp
    have 3: "reveals opts n (?c1 @ cs) = length (filter (entry_for n) (e # es))"
      by (simp only: reveals_append [of opts n ?c1 cs] r r1) simp
    have 4: "unobserves n (?c1 @ cs) = length (filter (entry_for n) (e # es))"
      by (simp only: unobserves_append [of n ?c1 cs] u u1) simp
    have 5: "set (targets s') \<subseteq> set (targets s)" using t t1 by auto
    have 6: "hasAttribute (nodes s' n) (marker opts) \<longrightarrow> hasAttribute (nodes s n) (marker opts)"
      using m m1 o1 by (cases "n = target e") auto
    have 7: "filter (entry_for n) (e # es) \<noteq> [] \<longrightarrow>
         n \<notin> set (targets s') \<and> \<not> hasAttribute (nodes s' n) (marker opts)"
    proof (cases "entry_for n e")
      case True
      then have n: "target e = n" by (simp add: entry_for_def)
      have "n \<notin> set (targets s1)" using t1 n by simp
      then show ?thesis using t m m1 n by auto
    next
      case False
      then show ?thesis using d by simp
    qed
    show ?thesis using 1 2 3 4 5 6 7 by blast
  qed
qed

subsection \<open>Events\<close>

lemma run_listener_valid:
  assumes "valid_classes opts"
  shows "\<exists>p'. run_listener opts cb p = Inr p' \<and> calls p' = calls p @ listener_calls opts cb"
  using assms
  by (cases cb)
     (simp_all add: valid_classes_def classList_add_valid classList_remove_valid and_then_Inr
        on_node_def)

lemma run_listener_keeps_listeners:
  "listeners (nodes (page_after (run_listener opts cb p)) m) = listeners (nodes p m)"
  by (cases cb)
     (auto simp: page_after_def classList_add_def classList_remove_def and_then_def on_node_def)

lemma fold_listeners_keep:
  "listeners (nodes (fold (\<lambda>l p. page_after (run_listener opts (fst (snd l)) p)) ls s) m) =
     listeners (nodes s m)"
  by (induction ls arbitrary: s) (simp_all add: run_listener_keeps_listeners)

lemma fire_listeners:
  "listeners (nodes (fire opts ty n p) m) =
     (if m = n then filter (stays ty) (listeners (nodes p n)) else listeners (nodes p m))"
  by (simp add: fire_def Let_def fold_listeners_keep)

lemma fold_listener_calls:
  assumes "valid_classes opts"
  shows "calls (fold (\<lambda>l p. page_after (run_listener opts (fst (snd l)) p)) ls s) =
     calls s @ concat (map (\<lambda>l. listener_calls opts (fst (snd l))) ls)"
proof (induction ls arbitrary: s)
  case Nil
  show ?case by simp
next
  case (Cons l ls)
  obtain p' where "run_listener opts (fst (snd l)) s = Inr p'"
    and "calls p' = calls s @ listener_calls opts (fst (snd l))"
    using run_listener_valid [OF assms] by blast
  then show ?case using Cons.IH [of p'] by (simp add: page_after_Inr)
qed

lemma fire_calls:
  assumes "valid_classes opts"
  shows "calls_since p (fire opts ty n p) =
     concat (map (\<lambda>l. listener_calls opts (fst (snd l)))
               (filter (is_type ty) (listeners (nodes p n))))"
  by (simp add: fire_def Let_def fold_listener_calls [OF assms] calls_since_def)

lemma stays_without_once: "\<not> snd (snd l) \<Longrightarrow> stays ty l"
  by (simp add: stays_def)

lemma fold_fire_listeners:
  "l \<in> set (listeners (nodes p t)) \<Longrightarrow> \<not> snd (snd l) \<Longrightarrow>
   l \<in> set (listeners (nodes (fold (\<lambda>ev. fire opts (fst ev) (snd ev)) evs p) t))"
proof (induction evs arbitrary: p)
  case Nil
  then show ?case by simp
next
  case (Cons ev evs)
  have "l \<in> set (listeners (nodes (fire opts (fst ev) (snd ev) p) t))"
    using Cons.prems by (auto simp: fire_listeners stays_without_once)
  from Cons.IH [OF this Cons.prems(2)] show ?case by simp
qed

lemma fire_calls_append:
  assumes "valid_classes opts"
  shows "calls (fire opts ty n p) =
     calls p @ concat (map (\<lambda>l. listener_calls opts (fst (snd l)))
                        (filter (is_type ty) (listeners (nodes p n))))"
  by (simp add: fire_def Let_def fold_listener_calls [OF assms])


subsection \<open>The failure path\<close>






subsection \<open>The fallback\<close>



lemma querySelectorAll_marker:
  "reads_marker s opts \<Longrightarrow> querySelectorAll (selector_text opts) s = Inr (lazy_elements opts s)"
  by (simp add: reads_marker_def querySelectorAll_def lazy_elements_def)

lemma matches_marker:
  "reads_marker s opts \<Longrightarrow> matches n (selector_text opts) s = Inr (has_marker opts (nodes s n))"
  by (simp add: reads_marker_def matches_def)


subsection \<open>The mutation observer\<close>

lemma fastLazyLoad_starts_observer:
  assumes "has_IntersectionObserver s" and "has_MutationObserver s" and "has_body s"
    and "reads_marker s opts"
  shows "\<exists>s'. fastLazyLoad opts s = Inr s' \<and> mutation_observing s' \<and>
           (\<forall>n \<in> set (lazy_elements opts s). n \<in> set (targets s')) \<and>
           nodes s' = nodes s \<and> selector s' = selector s"
proof -
  have b: "has_body (fold observe xs p) = has_body p \<and> nodes (fold observe xs p) = nodes p \<and>
           selector (fold observe xs p) = selector p \<and>
           set (targets (fold observe xs p)) = set (targets p) \<union> set xs" for xs p
    by (induction xs arbitrary: p) (auto simp: observe_def)
  show ?thesis
    using assms b [of "lazy_elements opts s" s]
    by (simp add: fastLazyLoad_def querySelectorAll_marker and_then_Inr mutation_observe_def)
qed

lemma mutation_callback_snoc:
  assumes "mutation_callback opts (before @ [childList ns]) s = Inr s0"
  shows "mutation_callback opts (before @ [childList (ns @ [node])]) s = added_node opts node s0"
proof -
  obtain sb where sb: "forEach (mutation_step opts) before s = Inr sb"
    and ns: "forEach (added_node opts) ns sb = Inr s0"
    using assms
    by (cases "forEach (mutation_step opts) before s")
       (auto simp: mutation_callback_def forEach_append and_then_def mutation_step_def
          childList_def split: sum.splits)
  show ?thesis
    using sb forEach_snoc [OF ns, of node]
    by (simp add: mutation_callback_def forEach_append and_then_def mutation_step_def
        childList_def split: sum.splits)
qed

lemma mutation_callback_other_type:
  assumes "mutation_type r \<noteq> ''childList''" and "mutation_callback opts before s = Inr s0"
  shows "mutation_callback opts (before @ [r]) s = Inr s0"
  using assms
  by (simp add: mutation_callback_def forEach_append and_then_def mutation_step_def)

lemma added_node_classified:
  assumes "nodeType (nodes s node) = 1"
    and "has_marker opts (nodes s node)"
    and "nodeName (nodes s node) \<noteq> ''SCRIPT''"
    and "reads_marker s opts"
  shows
    "if isElementInViewport s node
     then added_node opts node s =
            Inr (if wants_priority s node
                 then setAttribute node ''fetchpriority'' ''high'' (unveil opts node s)
                 else unveil opts node s) \<and>
          targets (page_after (added_node opts node s)) = targets s \<and>
          \<not> hasAttribute (nodes (page_after (added_node opts node s)) node) (marker opts) \<and>
          getAttribute (nodes (page_after (added_node opts node s)) node) ''fetchpriority'' =
            (if wants_priority s node then Some ''high''
             else getAttribute (nodes s node) ''fetchpriority'')
     else added_node opts node s = Inr (observe node s) \<and>
          node \<in> set (targets (page_after (added_node opts node s))) \<and>
          nodes (page_after (added_node opts node s)) = nodes s"
proof (cases "isElementInViewport s node")
  case True
  have eq: "added_node opts node s =
            Inr (if wants_priority s node
                 then setAttribute node ''fetchpriority'' ''high'' (unveil opts node s)
                 else unveil opts node s)"
    using assms True
    by (simp add: added_node_def Let_def wants_priority_def unveil_keeps hasAttribute_get
        unveil_fetchpriority matches_marker and_then_Inr)
  have "\<not> hasAttribute (nodes (page_after (added_node opts node s)) node) (marker opts)"
    using unveil_removes_marker [of opts node s] marker_lower_distinct [of opts]
    by (simp add: eq page_after_Inr platform_defs hasAttribute_def attribute_names update_conv')
  moreover have "getAttribute (nodes (page_after (added_node opts node s)) node) ''fetchpriority'' =
            (if wants_priority s node then Some ''high''
             else getAttribute (nodes s node) ''fetchpriority'')"
    by (simp add: eq page_after_Inr unveil_fetchpriority)
       (simp add: platform_defs getAttribute_def attribute_names update_conv')
  moreover have "targets (page_after (added_node opts node s)) = targets s"
    by (simp add: eq page_after_Inr unveil_frame) (simp add: platform_defs unveil_frame)
  ultimately show ?thesis using True eq by simp
next
  case False
  with assms show ?thesis
    by (simp add: added_node_def matches_marker and_then_Inr page_after_Inr)
       (simp add: platform_defs)
qed

lemma added_node_unmarked:
  assumes "reads_marker s opts"
    and "nodeType (nodes s node) \<noteq> 1 \<or> \<not> has_marker opts (nodes s node)"
  shows "added_node opts node s = Inr s"
  using assms by (auto simp: added_node_def matches_marker and_then_Inr)

text \<open>
  The callback on the node that a record of type \<^verbatim>\<open>childList\<close> lists, after the records
  and the nodes that come before it: a listed element that matches the marker selector
  and is not a script is revealed, with \<^verbatim>\<open>fetchpriority\<close> \<^verbatim>\<open>high\<close> on an image or a video
  that has none, when the viewport predicate holds for it, and else observed.
\<close>

lemma listed_node_classified:
  assumes "mutation_observing s"
    and "mutation_callback opts (before @ [childList ns]) s = Inr s0"
    and "nodeType (nodes s0 node) = 1"
    and "has_marker opts (nodes s0 node)"
    and "nodeName (nodes s0 node) \<noteq> ''SCRIPT''"
    and "reads_marker s0 opts"
  shows "deliver_mutations opts (before @ [childList (ns @ [node])]) s =
     (if isElementInViewport s0 node
      then (if wants_priority s0 node
            then setAttribute node ''fetchpriority'' ''high'' (unveil opts node s0)
            else unveil opts node s0)
      else observe node s0)"
proof -
  have d: "deliver_mutations opts (before @ [childList (ns @ [node])]) s =
           page_after (added_node opts node s0)"
    using assms(1) by (simp add: deliver_mutations_def mutation_callback_snoc [OF assms(2)])
  show ?thesis
  proof (cases "isElementInViewport s0 node")
    case True
    then show ?thesis
      using added_node_classified [OF assms(3-6)] by (simp add: d page_after_Inr)
  next
    case False
    then show ?thesis
      using added_node_classified [OF assms(3-6)] by (simp add: d page_after_Inr)
  qed
qed

subsection \<open>A script that the mutation observer reports\<close>

lemma fold_copy_attribute_other:
  "m \<noteq> script \<Longrightarrow> nodes (fold (copy_attribute opts script) as s) m = nodes s m"
  by (induction as arbitrary: s) (simp_all add: copy_attribute_def platform_defs)

lemma fold_copy_attribute_frame:
  "document (fold (copy_attribute opts script) as s) = document s \<and>
   next_node (fold (copy_attribute opts script) as s) = next_node s \<and>
   targets (fold (copy_attribute opts script) as s) = targets s"
  by (induction as arbitrary: s) (simp_all add: copy_attribute_def platform_defs)

lemma fold_copy_attribute_keeps:
  "nodeName (nodes (fold (copy_attribute opts script) as s) m) = nodeName (nodes s m)"
  by (induction as arbitrary: s) (simp_all add: copy_attribute_def platform_defs)

lemma marker_default: "marker default_Options = ''data-lazy''"
  by (simp add: marker_def default_Options_def)

lemma fold_copy_attribute_attributes:
  "distinct (map fst as) \<Longrightarrow>
   attributes (nodes (fold (copy_attribute default_Options script) as s) script) =
     (case map_of as ''data-lazy'' of
        None \<Rightarrow> attributes (nodes s script)
      | Some v \<Rightarrow> AList.update ''data-lazy'' v (attributes (nodes s script)))"
proof (induction as arbitrary: s)
  case Nil
  show ?case by simp
next
  case (Cons a as)
  obtain k v where a: "a = (k, v)" by (cases a)
  from Cons.prems a have d: "distinct (map fst as)" and k: "k \<notin> fst ` set as" by auto
  show ?case
  proof (cases "k = ''data-lazy''")
    case True
    then have "map_of as ''data-lazy'' = None"
      using k by (simp add: map_of_eq_None_iff)
    then show ?thesis
      using Cons.IH [OF d, of "copy_attribute default_Options script a s"] a True
      by (simp add: copy_attribute_def marker_default)
         (simp add: platform_defs attribute_names)
  next
    case False
    then have "copy_attribute default_Options script a s = s"
      using a by (simp add: copy_attribute_def marker_default)
    then show ?thesis
      using Cons.IH [OF d, of s] a False by simp
  qed
qed

lemma insert_before_at:
  "n \<notin> set xs \<Longrightarrow> insert_before new n (xs @ n # ys) = xs @ new # n # ys"
  by (induction xs) auto

lemma script_name: "map ascii_uppercase ''script'' = ''SCRIPT''"
  by code_simp

lemma reflects_src_script: "reflects_src ''SCRIPT''"
  by code_simp

text \<open>
  When the closure of \<^verbatim>\<open>lazyscript\<close> runs under the default options on a script that is
  in the document and carries \<^verbatim>\<open>data-lazy\<close>, a new script element takes the place of the
  old one; it has the marker attribute and the \<^verbatim>\<open>src\<close>, and nothing else.
\<close>

lemma lazyscript_onload_replaces:
  assumes "getAttribute (nodes s n) ''data-lazy'' = Some X"
    and "distinct (map fst (attributes (nodes s n)))"
    and "document s = xs @ n # ys" and "n \<notin> set xs" and "n \<notin> set ys"
    and "next_node s \<notin> set (document s)"
  shows "document (lazyscript_onload default_Options n s) = xs @ next_node s # ys \<and>
         nodeName (nodes (lazyscript_onload default_Options n s) (next_node s)) = ''SCRIPT'' \<and>
         attributes (nodes (lazyscript_onload default_Options n s) (next_node s)) =
           [(''data-lazy'', X), (''src'', X)]"
proof -
  let ?new = "next_node s"
  let ?s1 = "snd (createElement ''script'' s)"
  let ?s2 = "fold (copy_attribute default_Options ?new) (attributes (nodes ?s1 n)) ?s1"
  let ?s3 = "set_src ?new (dataset (nodes ?s2 n) ''lazy'') ?s2"
  have ne: "?new \<noteq> n" using assms(3,6) by auto
  have n1: "nodes ?s1 n = nodes s n" using ne by (simp add: createElement_def)
  have n2: "nodes ?s2 n = nodes s n"
    using ne n1 by (simp add: fold_copy_attribute_other)
  have m: "map_of (attributes (nodes s n)) ''data-lazy'' = Some X"
    using assms(1) by (simp add: getAttribute_def attribute_names)
  have a2: "attributes (nodes ?s2 ?new) = [(''data-lazy'', X)]"
    using assms(2) m
      fold_copy_attribute_attributes [of "attributes (nodes ?s1 n)" ?new ?s1]
    by (simp add: n1) (simp add: createElement_def)
  have name2: "nodeName (nodes ?s2 ?new) = ''SCRIPT''"
    using script_name by (simp add: fold_copy_attribute_keeps) (simp add: createElement_def)
  have d2: "document ?s2 = xs @ n # ys"
    using assms(3) by (simp add: fold_copy_attribute_frame) (simp add: createElement_def)
  have ds: "dataset (nodes ?s2 n) ''lazy'' = Some X"
    using assms(1) by (simp add: n2 dataset_lazy)
  have eq: "lazyscript_onload default_Options n s =
      remove_node n (parent_insertBefore ?new n ?s3)"
    by (simp add: lazyscript_onload_def Let_def createElement_def split_def)
  have d3: "document ?s3 = xs @ n # ys" using d2 by (simp add: platform_defs)
  have a3: "attributes (nodes ?s3 ?new) = [(''data-lazy'', X), (''src'', X)]"
    using a2 name2 reflects_src_script by (simp add: ds platform_defs js_string_def)
  have name3: "nodeName (nodes ?s3 ?new) = ''SCRIPT''"
    using name2 by (simp add: platform_defs)
  have "document (remove_node n (parent_insertBefore ?new n ?s3)) = xs @ ?new # ys"
    using d3 assms(4,5) ne by (simp add: remove_node_def parent_insertBefore_def insert_before_at)
  moreover have "nodes (remove_node n (parent_insertBefore ?new n ?s3)) = nodes ?s3"
    by (simp add: remove_node_def parent_insertBefore_def)
  ultimately show ?thesis using a3 name3 unfolding eq by simp
qed

text \<open>
  A script with \<^verbatim>\<open>data-lazy\<close> that the mutation observer reports as added, under the
  default options and with no other listener on the window: the page's nodes, document and
  Watch Set are as before until the \<^verbatim>\<open>load\<close> event of the window; when it fires, the new
  script stands where the old one was.
\<close>

lemma inserted_script_deferred:
  assumes "nodeType (nodes s n) = 1" and "nodeName (nodes s n) = ''SCRIPT''"
    and "getAttribute (nodes s n) ''data-lazy'' = Some X"
    and "distinct (map fst (attributes (nodes s n)))"
    and "document s = xs @ n # ys" and "n \<notin> set xs" and "n \<notin> set ys"
    and "next_node s \<notin> set (document s)"
    and "window_listeners s = []"
    and "reads_marker s default_Options"
  shows "\<exists>s1. added_node default_Options n s = Inr s1 \<and>
         nodes s1 = nodes s \<and> document s1 = document s \<and> targets s1 = targets s \<and>
         document (fire_window default_Options ''load'' s1) = xs @ next_node s # ys \<and>
         nodeName (nodes (fire_window default_Options ''load'' s1) (next_node s)) = ''SCRIPT'' \<and>
         attributes (nodes (fire_window default_Options ''load'' s1) (next_node s)) =
           [(''data-lazy'', X), (''src'', X)]"
proof -
  let ?s1 = "window_addEventListener ''load'' (LazyscriptListener n) s"
  have m: "has_marker default_Options (nodes s n)"
    using assms(3) by (simp add: has_marker_def marker_default hasAttribute_get)
  have s1: "added_node default_Options n s = Inr ?s1"
    using assms(1,2) m
    by (simp add: added_node_def lazyscript_def matches_marker [OF assms(10)] and_then_Inr)
  let ?p = "?s1\<lparr>window_listeners := [(''load'', LazyscriptListener n, False)]\<rparr>"
  have f: "fire_window default_Options ''load'' ?s1 = lazyscript_onload default_Options n ?p"
    using assms(9)
    by (simp add: fire_window_def Let_def window_addEventListener_def stays_def is_type_def)
  have p: "nodes ?p = nodes s" "document ?p = document s" "next_node ?p = next_node s"
    by (simp_all add: window_addEventListener_def)
  note r = lazyscript_onload_replaces [of ?p n X xs ys]
  have "document (lazyscript_onload default_Options n ?p) = xs @ next_node s # ys \<and>
        nodeName (nodes (lazyscript_onload default_Options n ?p) (next_node s)) = ''SCRIPT'' \<and>
        attributes (nodes (lazyscript_onload default_Options n ?p) (next_node s)) =
          [(''data-lazy'', X), (''src'', X)]"
    using r assms(3-8) unfolding p by simp
  then have "document (fire_window default_Options ''load'' ?s1) = xs @ next_node s # ys \<and>
        nodeName (nodes (fire_window default_Options ''load'' ?s1) (next_node s)) = ''SCRIPT'' \<and>
        attributes (nodes (fire_window default_Options ''load'' ?s1) (next_node s)) =
          [(''data-lazy'', X), (''src'', X)]"
    unfolding f .
  moreover have "nodes ?s1 = nodes s" "document ?s1 = document s" "targets ?s1 = targets s"
    by (simp_all add: window_addEventListener_def)
  ultimately show ?thesis using s1 by blast
qed

subsection \<open>The example pages\<close>

lemma reads_marker_page_with: "reads_marker (page_with els) default_Options"
  by (simp add: reads_marker_def page_with_def attribute_selector_def selector_text_def
      marker_default has_marker_def fun_eq_iff name_char_def ascii_lower_alpha_def
      ascii_upper_alpha_def lower_alphas_def upper_alphas_def)

section \<open>The claims\<close>

subsection \<open>C1: the Watch Set and the reveal\<close>

text \<open>
  C1 says that a watched element, when an intersecting entry is delivered for it, is
  removed from the Watch Set exactly once, in the handler invocation that reveals it, and
  that the element is never revealed twice and never watched after its reveal. The handler
  path does that (\<open>handler_batch\<close>: \<^verbatim>\<open>unveil\<close> and \<^verbatim>\<open>unobserve\<close> together, lines 66 and
  67); the mutation path reveals without the \<^verbatim>\<open>unobserve\<close> (lines 129 and 130). The image
  of \<open>watched_page\<close> is watched; the page moves it into the viewport, the mutation
  observer's callback reveals it (its \<^verbatim>\<open>src\<close> is \<^verbatim>\<open>a.png\<close>, the marker is gone) and leaves
  it in the Watch Set; the intersecting entry that follows makes the handler reveal it a
  second time, and the second \<^verbatim>\<open>dataset.lazy\<close> is \<open>undefined\<close>: the loaded \<^verbatim>\<open>src\<close> is
  overwritten.
\<close>

theorem revealed_twice:
  "0 \<in> set (targets moved_page) \<and>
   \<not> hasAttribute (nodes moved_page 0) ''data-lazy'' \<and>
   getAttribute (nodes moved_page 0) ''src'' = Some ''a.png'' \<and>
   reveals default_Options 0 (calls entered_page) = 2 \<and>
   getAttribute (nodes entered_page 0) ''src'' = Some ''undefined''"
  by code_simp

subsection \<open>C2: the viewport predicate\<close>

text \<open>
  C2: \<^verbatim>\<open>isElementInViewport\<close> is true exactly when the element's rectangle has
  \<open>bottom > 0\<close>, \<open>right > 0\<close>, \<open>left\<close> below the viewport width and \<open>top\<close> below the
  viewport height, the viewport size being the window's inner size unless that is zero or
  undefined, and then the document root's client size. The predicate returns a truth value
  and no page: it has no effect.
\<close>

theorem viewport_predicate:
  "isElementInViewport s el \<longleftrightarrow>
     rect_bottom (rect (nodes s el)) > 0 \<and> rect_right (rect (nodes s el)) > 0 \<and>
     rect_left (rect (nodes s el)) < real_of_int (viewport_width s) \<and>
     rect_top (rect (nodes s el)) < real_of_int (viewport_height s)"
  by (auto simp: isElementInViewport_def viewport_width_def viewport_height_def js_or_def Let_def
           split: option.splits)

text \<open>The image at the top of the page is in the viewport, the one at 5000 pixels is not.\<close>

theorem viewport_predicate_witness:
  "isElementInViewport onscreen_page 0 \<and> \<not> isElementInViewport (page_of lazy_img) 0"
proof -
  have a: "rect_bottom (rect (nodes onscreen_page 0)) > 0 \<and>
           rect_right (rect (nodes onscreen_page 0)) > 0 \<and>
           rect_left (rect (nodes onscreen_page 0)) < real_of_int (viewport_width onscreen_page) \<and>
           rect_top (rect (nodes onscreen_page 0)) < real_of_int (viewport_height onscreen_page)"
    by code_simp
  have b: "\<not> rect_top (rect (nodes (page_of lazy_img) 0))
             < real_of_int (viewport_height (page_of lazy_img))"
    by code_simp
  show ?thesis
    using viewport_predicate [of onscreen_page 0] viewport_predicate [of "page_of lazy_img" 0] a b
    by blast
qed

subsection \<open>C3: the reveal under the default options\<close>




subsection \<open>C4: the source set\<close>

text \<open>
  C4 says that an element without inline background image that carries, besides the
  marker, a pending source set gets its \<^verbatim>\<open>src\<close> and also its \<^verbatim>\<open>srcset\<close>, set to the
  companion value. The code does not do it. For
  \<^verbatim>\<open><img data-lazy="a.png" data-lazy-srcset="a.png 1x, b.png 2x">\<close> the \<^verbatim>\<open>unveil\<close> of
  \<^verbatim>\<open>src/index.ts\<close> sets \<^verbatim>\<open>src\<close> and never touches \<^verbatim>\<open>srcset\<close>; the later revision tests
  for the name \<^verbatim>\<open>lazy-srcset\<close> in the dataset, where the companion attribute is named
  \<^verbatim>\<open>lazySrcset\<close>, so it leaves \<^verbatim>\<open>srcset\<close> unset as well.
\<close>

theorem srcset_not_set:
  "getAttribute (nodes (unveil default_Options 0 (page_of srcset_img)) 0) ''src'' = Some ''a.png'' \<and>
   getAttribute (nodes (unveil default_Options 0 (page_of srcset_img)) 0) ''srcset'' = None \<and>
   dataset srcset_img ''lazySrcset'' = Some ''a.png 1x, b.png 2x'' \<and>
   \<not> in_dataset ''lazy-srcset'' srcset_img \<and>
   getAttribute (nodes (unveil_srcset default_Options 0 (page_of srcset_img)) 0) ''src'' =
     Some ''a.png'' \<and>
   getAttribute (nodes (unveil_srcset default_Options 0 (page_of srcset_img)) 0) ''srcset'' = None"
  by code_simp

subsection \<open>C5: the configured marker\<close>

text \<open>
  C5 says that the pending URL is read from the configured marker attribute. The
  \<^verbatim>\<open>unveil\<close> of \<^verbatim>\<open>src/index.ts\<close> removes the configured attribute but reads
  \<^verbatim>\<open>dataset.lazy\<close>: with \<^verbatim>\<open>attribute: 'img'\<close> and \<^verbatim>\<open><img data-img="a.png">\<close> it sets
  \<^verbatim>\<open>src\<close> to \<^verbatim>\<open>undefined\<close> and removes \<^verbatim>\<open>data-img\<close>. The later revision, which reads
  \<^verbatim>\<open>dataset[Options.attribute]\<close>, sets \<^verbatim>\<open>src\<close> to \<^verbatim>\<open>a.png\<close>.
\<close>

theorem configured_marker_not_read:
  "getAttribute (nodes (page_of custom_img) 0) (marker custom_Options) = Some ''a.png'' \<and>
   getAttribute (nodes (unveil custom_Options 0 (page_of custom_img)) 0) ''src'' =
     Some ''undefined'' \<and>
   \<not> hasAttribute (nodes (unveil custom_Options 0 (page_of custom_img)) 0) (marker custom_Options) \<and>
   getAttribute (nodes (unveil_srcset custom_Options 0 (page_of custom_img)) 0) ''src'' =
     Some ''a.png''"
  by code_simp

subsection \<open>C6: the steps of the handler\<close>

text \<open>
  C6 says that for an intersecting entry the handler adds the \<open>on\<close> class, registers a
  one-shot load listener and a one-shot error listener, adds the \<open>loading\<close> class, reveals
  and unobserves, in this order. The listeners are not one-shot: they are registered
  without \<^verbatim>\<open>once\<close>. After the image of \<open>revealed_page\<close> has loaded, both listeners are
  still registered, and a second \<^verbatim>\<open>load\<close> event runs the load listener a second time.
\<close>

theorem load_listener_stays:
  "listeners (nodes (fire default_Options ''load'' 0 revealed_page) 0) =
     [(''load'', LoadListener 0, False), (''error'', ErrorListener 0, False)] \<and>
   calls_since revealed_page
     (fire default_Options ''load'' 0 (fire default_Options ''load'' 0 revealed_page)) =
     [ClassListAdd 0 ''lazy-loaded'', ClassListRemove 0 ''lazy-loading'',
      ClassListAdd 0 ''lazy-loaded'', ClassListRemove 0 ''lazy-loading'']"
proof -
  have v: "valid_classes default_Options" by code_simp
  have l: "listeners (nodes revealed_page 0) =
     [(''load'', LoadListener 0, False), (''error'', ErrorListener 0, False)]"
    by code_simp
  have 1: "listeners (nodes (fire default_Options ''load'' 0 revealed_page) 0) =
     [(''load'', LoadListener 0, False), (''error'', ErrorListener 0, False)]"
    by (simp add: fire_listeners l stays_def)
  have c1: "calls (fire default_Options ''load'' 0 revealed_page) =
     calls revealed_page @ [ClassListAdd 0 ''lazy-loaded'', ClassListRemove 0 ''lazy-loading'']"
    unfolding fire_calls_append [OF v] l by (simp add: is_type_def default_Options_def)
  have c2: "calls (fire default_Options ''load'' 0 (fire default_Options ''load'' 0 revealed_page)) =
     calls (fire default_Options ''load'' 0 revealed_page) @
     [ClassListAdd 0 ''lazy-loaded'', ClassListRemove 0 ''lazy-loading'']"
    unfolding fire_calls_append [OF v] 1 l by (simp add: is_type_def default_Options_def)
  have 2: "calls_since revealed_page
     (fire default_Options ''load'' 0 (fire default_Options ''load'' 0 revealed_page)) =
     [ClassListAdd 0 ''lazy-loaded'', ClassListRemove 0 ''lazy-loading'',
      ClassListAdd 0 ''lazy-loaded'', ClassListRemove 0 ''lazy-loading'']"
    by (rule calls_since_append) (simp add: c2 c1)
  show ?thesis using 1 2 by (rule conjI)
qed

text \<open>
  C6 as amended, for options whose four class names are tokens that \<^verbatim>\<open>classList\<close> takes:
  for every intersecting entry of a batch, the handler returns from it, and the calls it
  makes for it are, in this order, \<^verbatim>\<open>classList.add(on)\<close>, the registration of a load
  listener, the registration of an error listener, \<^verbatim>\<open>classList.add(loading)\<close>, the calls
  of \<^verbatim>\<open>unveil\<close> and \<^verbatim>\<open>unobserve\<close>. The load listener adds \<open>loaded\<close> and removes \<open>loading\<close>,
  the error listener adds \<open>failed\<close>. Both listeners are registered without \<^verbatim>\<open>once\<close>: they
  are registered on the element after every sequence of later events, no event removes a
  listener registered without \<^verbatim>\<open>once\<close>, and every event of a type runs every listener
  registered for that type.
\<close>

theorem intersecting_entry_steps:
  assumes "isIntersecting e" and "valid_classes opts"
    and "lazyLoadBackgrounds opts before s = Inr s0"
  shows
    "\<exists>s1. lazyLoadBackgrounds opts (before @ [e]) s = Inr s1 \<and>
       calls_since s0 s1 =
         [ClassListAdd (target e) (on opts),
          AddEventListener (target e) ''load'' (LoadListener (target e)),
          AddEventListener (target e) ''error'' (ErrorListener (target e)),
          ClassListAdd (target e) (loading opts)] @
         calls_since s0 (unveil opts (target e) s0) @
         [Unobserve (target e)] \<and>
       listeners (nodes s1 (target e)) =
         listeners (nodes s0 (target e)) @
         [(''load'', LoadListener (target e), False), (''error'', ErrorListener (target e), False)] \<and>
       (\<forall>p. \<exists>p'. run_listener opts (LoadListener (target e)) p = Inr p' \<and>
          calls_since p p' =
            [ClassListAdd (target e) (loaded opts), ClassListRemove (target e) (loading opts)]) \<and>
       (\<forall>p. \<exists>p'. run_listener opts (ErrorListener (target e)) p = Inr p' \<and>
          calls_since p p' = [ClassListAdd (target e) (failed opts)]) \<and>
       (\<forall>evs.
          (''load'', LoadListener (target e), False) \<in>
            set (listeners (nodes (fold (\<lambda>ev. fire opts (fst ev) (snd ev)) evs s1) (target e))) \<and>
          (''error'', ErrorListener (target e), False) \<in>
            set (listeners (nodes (fold (\<lambda>ev. fire opts (fst ev) (snd ev)) evs s1) (target e)))) \<and>
       (\<forall>p ty l. l \<in> set (listeners (nodes p (target e))) \<and> \<not> snd (snd l) \<longrightarrow>
          l \<in> set (listeners (nodes (fire opts ty (target e) p) (target e)))) \<and>
       (\<forall>p ty. calls_since p (fire opts ty (target e) p) =
          concat (map (\<lambda>l. listener_calls opts (fst (snd l)))
                    (filter (is_type ty) (listeners (nodes p (target e))))))"
proof -
  have v: "valid_token (on opts)" "valid_token (loading opts)"
    using assms(2) by (simp_all add: valid_classes_def)
  from entry_callback_effect [OF assms(1) v, of s0]
  obtain s1 where s1: "entry_callback opts e s0 = Inr s1"
    and c: "calls s1 = calls s0 @
        [ClassListAdd (target e) (on opts),
         AddEventListener (target e) ''load'' (LoadListener (target e)),
         AddEventListener (target e) ''error'' (ErrorListener (target e)),
         ClassListAdd (target e) (loading opts)] @
        calls_since s0 (unveil opts (target e) s0) @ [Unobserve (target e)]"
    and l: "listeners (nodes s1 (target e)) =
        listeners (nodes s0 (target e)) @
        [(''load'', LoadListener (target e), False), (''error'', ErrorListener (target e), False)]"
    by blast
  have 1: "lazyLoadBackgrounds opts (before @ [e]) s = Inr s1"
    using assms(3) s1 by (simp add: lazyLoadBackgrounds_def forEach_snoc)
  have 2: "calls_since s0 s1 =
         [ClassListAdd (target e) (on opts),
          AddEventListener (target e) ''load'' (LoadListener (target e)),
          AddEventListener (target e) ''error'' (ErrorListener (target e)),
          ClassListAdd (target e) (loading opts)] @
         calls_since s0 (unveil opts (target e) s0) @
         [Unobserve (target e)]"
    using c by (rule calls_since_append)
  have 3: "\<exists>p'. run_listener opts cb p = Inr p' \<and> calls_since p p' = listener_calls opts cb"
    for cb p
    using run_listener_valid [OF assms(2), of cb p] calls_since_append by blast
  have 4: "l \<in> set (listeners (nodes (fire opts ty (target e) p) (target e)))"
    if "l \<in> set (listeners (nodes p (target e))) \<and> \<not> snd (snd l)" for p ty l
    using that by (simp add: fire_listeners stays_without_once)
  have 5: "(''load'', LoadListener (target e), False) \<in>
            set (listeners (nodes (fold (\<lambda>ev. fire opts (fst ev) (snd ev)) evs s1) (target e)))"
    for evs by (rule fold_fire_listeners) (simp_all add: l)
  have 6: "(''error'', ErrorListener (target e), False) \<in>
            set (listeners (nodes (fold (\<lambda>ev. fire opts (fst ev) (snd ev)) evs s1) (target e)))"
    for evs by (rule fold_fire_listeners) (simp_all add: l)
  show ?thesis
    using 1 2 l 3 [of "LoadListener (target e)"] 3 [of "ErrorListener (target e)"] 4 5 6
      fire_calls [OF assms(2)]
    by simp
qed

text \<open>The seven calls for the watched image that scrolls into view; after it has loaded,
  the load listener is still registered.\<close>

theorem intersecting_entry_steps_witness:
  "isIntersecting (entering 0) \<and> valid_classes default_Options \<and>
   lazyLoadBackgrounds default_Options [] watched_page = Inr watched_page \<and>
   calls_since watched_page revealed_page =
     [ClassListAdd 0 ''lazy'',
      AddEventListener 0 ''load'' (LoadListener 0),
      AddEventListener 0 ''error'' (ErrorListener 0),
      ClassListAdd 0 ''lazy-loading'',
      SetSrc 0 (Some ''a.png''),
      RemoveAttribute 0 ''data-lazy'',
      Unobserve 0] \<and>
   (''load'', LoadListener 0, False) \<in> set (listeners (nodes revealed_page 0)) \<and>
   \<not> snd (snd (''load'', LoadListener 0, False)) \<and>
   (''load'', LoadListener 0, False) \<in>
     set (listeners (nodes (fire default_Options ''load'' 0 revealed_page) 0))"
proof -
  have h: "isIntersecting (entering 0)" by (simp add: entering_def)
  have v: "valid_classes default_Options" by code_simp
  have t: "target (entering 0) = 0" by (simp add: entering_def)
  have u: "calls_since watched_page (unveil default_Options 0 watched_page) =
             [SetSrc 0 (Some ''a.png''), RemoveAttribute 0 ''data-lazy'']"
    by code_simp
  have b: "lazyLoadBackgrounds default_Options [] watched_page = Inr watched_page"
    by (simp add: lazyLoadBackgrounds_def)
  have o: "on default_Options = ''lazy''" "loading default_Options = ''lazy-loading''"
    by (simp_all add: default_Options_def)
  have r: "(''load'', LoadListener 0, False) \<in> set (listeners (nodes revealed_page 0))"
    by code_simp
  have n: "\<not> snd (snd (''load'', LoadListener (0::nat), False))" by simp
  from intersecting_entry_steps [OF h v b] show ?thesis
  proof (elim exE conjE)
    fix s1
    assume s1: "lazyLoadBackgrounds default_Options ([] @ [entering 0]) watched_page = Inr s1"
      and c: "calls_since watched_page s1 =
         [ClassListAdd (target (entering 0)) (on default_Options),
          AddEventListener (target (entering 0)) ''load'' (LoadListener (target (entering 0))),
          AddEventListener (target (entering 0)) ''error'' (ErrorListener (target (entering 0))),
          ClassListAdd (target (entering 0)) (loading default_Options)] @
         calls_since watched_page (unveil default_Options (target (entering 0)) watched_page) @
         [Unobserve (target (entering 0))]"
      and k: "\<forall>p ty l. l \<in> set (listeners (nodes p (target (entering 0)))) \<and> \<not> snd (snd l) \<longrightarrow>
          l \<in> set (listeners (nodes (fire default_Options ty (target (entering 0)) p)
                       (target (entering 0))))"
    have e: "s1 = revealed_page"
      using s1 by (simp add: revealed_page_def page_after_Inr)
    have 1: "calls_since watched_page revealed_page =
       [ClassListAdd 0 ''lazy'',
        AddEventListener 0 ''load'' (LoadListener 0),
        AddEventListener 0 ''error'' (ErrorListener 0),
        ClassListAdd 0 ''lazy-loading'',
        SetSrc 0 (Some ''a.png''),
        RemoveAttribute 0 ''data-lazy'',
        Unobserve 0]"
      using c unfolding e t u o by simp
    have 2: "(''load'', LoadListener 0, False) \<in>
       set (listeners (nodes (fire default_Options ''load'' 0 revealed_page) 0))"
      using k [unfolded t, THEN spec, THEN spec, THEN spec, THEN mp, OF conjI [OF r n]] .
    show ?thesis using h v b 1 r n 2 by blast
  qed
qed

subsection \<open>C7: a script present at startup\<close>

text \<open>
  C7 says that a script with the marker attribute that is present at startup is left
  unchanged until the window's \<^verbatim>\<open>load\<close> event and then replaced by a new script element.
  \<^verbatim>\<open>fastLazyLoad\<close> calls \<^verbatim>\<open>lazyscript\<close> only from the mutation observer's callback
  (\<open>inserted_script_deferred\<close>). At startup the script is one of the elements that
  \<^verbatim>\<open>querySelectorAll\<close> finds: it is put in the Watch Set, no listener is registered on the
  window, and when the \<^verbatim>\<open>load\<close> event fires the document still holds the old script and
  no element has been created.
\<close>

theorem startup_script_not_deferred:
  "querySelectorAll (selector_text default_Options) (page_of lazy_script) = Inr [0] \<and>
   returned (fastLazyLoad default_Options (page_of lazy_script)) \<and>
   window_listeners (page_after (fastLazyLoad default_Options (page_of lazy_script))) = [] \<and>
   targets (page_after (fastLazyLoad default_Options (page_of lazy_script))) = [0] \<and>
   document (fire_window default_Options ''load''
     (page_after (fastLazyLoad default_Options (page_of lazy_script)))) = [0] \<and>
   next_node (fire_window default_Options ''load''
     (page_after (fastLazyLoad default_Options (page_of lazy_script)))) = 1 \<and>
   nodes (fire_window default_Options ''load''
     (page_after (fastLazyLoad default_Options (page_of lazy_script)))) 0 = lazy_script"
proof -
  have r: "reads_marker (page_of lazy_script) default_Options"
    unfolding page_of_def by (rule reads_marker_page_with)
  have l: "lazy_elements default_Options (page_of lazy_script) = [0]" by code_simp
  have 1: "querySelectorAll (selector_text default_Options) (page_of lazy_script) = Inr [0]"
    using querySelectorAll_marker [OF r] l by simp
  have 2: "returned (fastLazyLoad default_Options (page_of lazy_script)) \<and>
   window_listeners (page_after (fastLazyLoad default_Options (page_of lazy_script))) = [] \<and>
   targets (page_after (fastLazyLoad default_Options (page_of lazy_script))) = [0] \<and>
   document (fire_window default_Options ''load''
     (page_after (fastLazyLoad default_Options (page_of lazy_script)))) = [0] \<and>
   next_node (fire_window default_Options ''load''
     (page_after (fastLazyLoad default_Options (page_of lazy_script)))) = 1 \<and>
   nodes (fire_window default_Options ''load''
     (page_after (fastLazyLoad default_Options (page_of lazy_script)))) 0 = lazy_script"
    by code_simp
  show ?thesis using 1 2 by (rule conjI)
qed

subsection \<open>C8: the fallback\<close>



subsection \<open>C9: an element that a page script inserts\<close>

text \<open>
  C9 says that every dynamically inserted element node that matches the marker selector
  and is not a script is revealed at once when the viewport predicate holds for it, with
  \<^verbatim>\<open>fetchpriority\<close> \<^verbatim>\<open>high\<close> on an image or a video that has none, and is registered in
  the Watch Set when it fails. The callback of the mutation observer does that for the
  nodes that a record lists in \<^verbatim>\<open>addedNodes\<close> (\<open>listed_node_classified\<close>), and a record
  lists the root of what was inserted: the elements inside it are not looked at, where
  the startup enumeration finds them with \<^verbatim>\<open>querySelectorAll\<close>. A page script inserts
  \<^verbatim>\<open><div><img data-lazy="a.png"></div>\<close> at the top of the page, where the mutation
  observer is started. The image is in the document, carries the marker and is in the
  viewport. The callback makes no call: the image keeps its marker, gets no \<^verbatim>\<open>src\<close> and
  is not watched, so it is never loaded. The same image is revealed when the record lists
  it, and watched when it is in the document at startup.
\<close>

theorem nested_node_not_classified:
  "mutation_observing wrapper_page \<and>
   document wrapper_page = [0, 1] \<and>
   nodeType (nodes wrapper_page 1) = 1 \<and>
   has_marker default_Options (nodes wrapper_page 1) \<and>
   nodeName (nodes wrapper_page 1) = ''IMG'' \<and>
   isElementInViewport wrapper_page 1 \<and>
   calls_since wrapper_page (deliver_mutations default_Options [childList [0]] wrapper_page) = [] \<and>
   nodes (deliver_mutations default_Options [childList [0]] wrapper_page) 1 =
     nodes wrapper_page 1 \<and>
   getAttribute (nodes (deliver_mutations default_Options [childList [0]] wrapper_page) 1) ''src'' =
     None \<and>
   targets (deliver_mutations default_Options [childList [0]] wrapper_page) = [] \<and>
   calls_since wrapper_page (deliver_mutations default_Options [childList [1]] wrapper_page) =
     [SetSrc 1 (Some ''a.png''), RemoveAttribute 1 ''data-lazy'',
      SetAttribute 1 ''fetchpriority'' ''high''] \<and>
   targets (page_after (fastLazyLoad default_Options
     (page_with [plain_div, lazy_img\<lparr>rect := onscreen\<rparr>]))) = [1]"
  by code_simp

subsection \<open>C10: the failure path\<close>




end
